theory Spec2Isabelle
  imports Complex_Main "HOL-Library.Word"
begin

unbundle bit_operations_syntax

section \<open>JavaScript values\<close>

text \<open>
  The values the registers and the awareness store hold are the ones a JSON text can
  carry. \<open>JNull\<close> is JavaScript's \<open>null\<close>; \<open>undefined\<close> is never stored and
  is written as \<open>None\<close> where an expression may produce it. Numbers are rationals, which
  covers every finite double; \<open>-0\<close> and \<open>0\<close> are the same, both falsy.
\<close>

datatype json =
    JNull
  | JBool bool
  | JNum rat
  | JStr string
  | JArr "json list"
  | JObj "(string \<times> json) list"

text \<open>
  Truthiness, as \<open>||\<close> and \<open>if\<close> test it: \<open>null\<close>, \<open>false\<close>, \<open>0\<close> and the
  empty string are falsy, every object and array is truthy.
\<close>

fun truthy :: "json \<Rightarrow> bool" where
  "truthy JNull = False"
| "truthy (JBool b) = b"
| "truthy (JNum n) = (n \<noteq> 0)"
| "truthy (JStr s) = (s \<noteq> [])"
| "truthy (JArr xs) = True"
| "truthy (JObj kvs) = True"

section \<open>The last-writer-wins register (llw-register.ts)\<close>

record 'a IState =
  peer :: string
  timestamp :: int
  val :: 'a

record 'a LWWRegister =
  reg_id :: string
  state :: "'a IState"

definition LWWRegister_new :: "string \<Rightarrow> 'a IState \<Rightarrow> 'a LWWRegister" where
  "LWWRegister_new i s = \<lparr>reg_id = i, state = s\<rparr>"

definition LWWRegister_value :: "'a LWWRegister \<Rightarrow> 'a" where
  "LWWRegister_value r = val (state r)"

definition LWWRegister_set :: "'a \<Rightarrow> 'a LWWRegister \<Rightarrow> 'a LWWRegister" where
  "LWWRegister_set v r =
     r\<lparr>state := \<lparr>peer = reg_id r, timestamp = timestamp (state r) + 1, val = v\<rparr>\<rparr>"

text \<open>
  \<open>merge\<close> has two early returns, in the source's order, and then the assignment
  \<open>this.state = state\<close>.
\<close>

definition LWWRegister_merge :: "'a IState \<Rightarrow> 'a LWWRegister \<Rightarrow> 'a LWWRegister" where
  "LWWRegister_merge s r =
     (let remotePeer = peer s; remoteTimestamp = timestamp s;
          localPeer = peer (state r); localTimestamp = timestamp (state r)
      in if localTimestamp > remoteTimestamp then r
         else if localTimestamp = remoteTimestamp \<and> remotePeer \<noteq> localPeer then r
         else r\<lparr>state := s\<rparr>)"

section \<open>The keyed register map (LWWMap)\<close>

text \<open>
  \<open>data\<close> is the private \<open>Map\<close> from keys to registers. A register of the map holds a
  value of type \<open>T | null\<close>: here a \<open>json\<close>, with \<open>JNull\<close> the tombstone.
\<close>

record LWWMap =
  map_id :: string
  data :: "string \<rightharpoonup> json LWWRegister"

fun LWWMap_fill :: "string \<Rightarrow> (string \<times> json IState) list \<Rightarrow>
    (string \<rightharpoonup> json LWWRegister) \<Rightarrow> (string \<rightharpoonup> json LWWRegister)" where
  "LWWMap_fill i [] d = d"
| "LWWMap_fill i ((key, register) # rest) d =
     LWWMap_fill i rest (d(key \<mapsto> LWWRegister_new i register))"

definition LWWMap_new :: "string \<Rightarrow> (string \<times> json IState) list \<Rightarrow> LWWMap" where
  "LWWMap_new i st = \<lparr>map_id = i, data = LWWMap_fill i st Map.empty\<rparr>"

definition LWWMap_value :: "LWWMap \<Rightarrow> (string \<rightharpoonup> json)" where
  "LWWMap_value m = (\<lambda>key.
     case data m key of
       None \<Rightarrow> None
     | Some register \<Rightarrow>
         if LWWRegister_value register \<noteq> JNull then Some (LWWRegister_value register)
         else None)"

definition LWWMap_state :: "LWWMap \<Rightarrow> (string \<rightharpoonup> json IState)" where
  "LWWMap_state m = (\<lambda>key.
     case data m key of None \<Rightarrow> None | Some register \<Rightarrow> Some (state register))"

fun LWWMap_merge :: "(string \<times> json IState) list \<Rightarrow> LWWMap \<Rightarrow> LWWMap" where
  "LWWMap_merge [] m = m"
| "LWWMap_merge ((key, remote) # rest) m =
     LWWMap_merge rest
       (case data m key of
          Some local \<Rightarrow> m\<lparr>data := (data m)(key \<mapsto> LWWRegister_merge remote local)\<rparr>
        | None \<Rightarrow> m\<lparr>data := (data m)(key \<mapsto> LWWRegister_new (map_id m) remote)\<rparr>)"

definition LWWMap_set :: "string \<Rightarrow> json \<Rightarrow> LWWMap \<Rightarrow> LWWMap" where
  "LWWMap_set key v m =
     (case data m key of
        Some register \<Rightarrow> m\<lparr>data := (data m)(key \<mapsto> LWWRegister_set v register)\<rparr>
      | None \<Rightarrow>
          m\<lparr>data := (data m)(key \<mapsto>
             LWWRegister_new (map_id m) \<lparr>peer = map_id m, timestamp = 1, val = v\<rparr>)\<rparr>)"

text \<open>
  \<open>this.data.get(key)?.value\<close>: \<open>undefined\<close> (\<open>None\<close>) when the key has no register,
  otherwise the register's value, which may be \<open>null\<close>.
\<close>

definition LWWMap_lookup_value :: "LWWMap \<Rightarrow> string \<Rightarrow> json option" where
  "LWWMap_lookup_value m key =
     (case data m key of None \<Rightarrow> None | Some register \<Rightarrow> Some (LWWRegister_value register))"

text \<open>\<open>get\<close> is \<open>this.data.get(key)?.value || undefined\<close>.\<close>

definition LWWMap_get :: "LWWMap \<Rightarrow> string \<Rightarrow> json option" where
  "LWWMap_get m key =
     (case LWWMap_lookup_value m key of
        None \<Rightarrow> None
      | Some v \<Rightarrow> if truthy v then Some v else None)"

definition LWWMap_delete :: "string \<Rightarrow> LWWMap \<Rightarrow> LWWMap" where
  "LWWMap_delete key m =
     (case data m key of
        None \<Rightarrow> m
      | Some register \<Rightarrow> m\<lparr>data := (data m)(key \<mapsto> LWWRegister_set JNull register)\<rparr>)"

text \<open>
  \<open>has\<close> is \<open>this.data.get(key)?.value !== null\<close>: the strict comparison of
  \<open>undefined\<close> with \<open>null\<close> is an inequality.
\<close>

definition LWWMap_has :: "LWWMap \<Rightarrow> string \<Rightarrow> bool" where
  "LWWMap_has m key = (LWWMap_lookup_value m key \<noteq> Some JNull)"

section \<open>The binary envelope (lib0 encoding and decoding)\<close>

text \<open>
  Modelled from the spec: the functions \<open>writeVarUint\<close>, \<open>writeVarString\<close>,
  \<open>readVarUint\<close> and \<open>readVarString\<close> of the imported library lib0, whose source is
  not part of the repository. The spec (4.4) fixes the layout: little-endian
  variable-length integers, seven bits to a byte with the high bit set on every byte but
  the last, and text as a length-prefixed UTF-8 byte sequence. A decoder is the part of the
  buffer that is still unread. A JSON text is represented by its UTF-8 bytes.
\<close>

type_synonym byte = "8 word"

datatype error = UnexpectedEndOfArray | SyntaxError | TypeError

function writeVarUint :: "nat \<Rightarrow> byte list" where
  "writeVarUint num =
     (if num > 127 then (0x80 OR (0x7F AND of_nat num)) # writeVarUint (num div 128)
      else [0x7F AND of_nat num])"
  by pat_completeness auto
termination
  by (relation "measure (\<lambda>num. num)") auto

declare writeVarUint.simps [simp del]

definition writeVarString :: "byte list \<Rightarrow> byte list" where
  "writeVarString txt = writeVarUint (length txt) @ txt"

fun readVarUintLoop :: "nat \<Rightarrow> nat \<Rightarrow> byte list \<Rightarrow> error + (nat \<times> byte list)" where
  "readVarUintLoop num mult [] = Inl UnexpectedEndOfArray"
| "readVarUintLoop num mult (r # rest) =
     (let num' = num + unat (r AND 0x7F) * mult
      in if r < 0x80 then Inr (num', rest) else readVarUintLoop num' (mult * 128) rest)"

definition readVarUint :: "byte list \<Rightarrow> error + (nat \<times> byte list)" where
  "readVarUint dec = readVarUintLoop 0 1 dec"

definition readVarString :: "byte list \<Rightarrow> error + (byte list \<times> byte list)" where
  "readVarString dec =
     (case readVarUint dec of
        Inl e \<Rightarrow> Inl e
      | Inr (n, rest) \<Rightarrow>
          if n \<le> length rest then Inr (take n rest, drop n rest)
          else Inl UnexpectedEndOfArray)"

section \<open>The awareness store (y-protocols/awareness.js)\<close>

text \<open>
  Client ids and clocks are the non-negative integers the envelope carries (a clock is
  incremented with \<open>jsPlusOne\<close>);
  \<open>lastUpdated\<close> is a unix time in milliseconds. \<open>states\<close> and \<open>meta\<close> are the two
  \<open>Map\<close>s of the class. The functions of the runtime and of lib0 that the code calls are
  parameters of the model: \<open>now\<close> is the value of \<open>time.getUnixTime()\<close>,
  \<open>equalityDeep\<close> is \<open>f.equalityDeep\<close> (an argument may be \<open>undefined\<close>, written
  \<open>None\<close>), \<open>stringify\<close> is \<open>JSON.stringify\<close> followed by the UTF-8 encoder and
  \<open>parse\<close> is the UTF-8 decoder followed by \<open>JSON.parse\<close>, \<open>None\<close> when either
  throws. An emitted event is returned with the new store.
\<close>

text \<open>
  The sum \<open>c + 1\<close> of JavaScript numbers for a clock \<open>c\<close>, as \<open>clock + 1\<close> and
  \<open>clock++\<close> compute it. Numbers are doubles: below \<open>2^53\<close> every integer is a
  number and the sum is exact. From \<open>2^53\<close> on only the even integers are numbers (from
  \<open>2^54\<close> on only multiples of 4, and so on), the exact sum is not a number and the
  result is the nearest one, on a tie the one with the even significand: \<open>c + 2\<close> for
  a \<open>c\<close> below \<open>2^54\<close> whose half is odd, and \<open>c\<close> itself otherwise. (An integer
  that is not a number never is a clock of the runtime; the function leaves it as it is.)
\<close>

definition jsPlusOne :: "nat \<Rightarrow> nat" where
  "jsPlusOne c =
     (if c < 2 ^ 53 then c + 1
      else if c < 2 ^ 54 \<and> c mod 4 = 2 then c + 2
      else c)"

record MetaClientState =
  clock :: nat
  lastUpdated :: nat

record Awareness =
  clientID :: nat
  states :: "nat \<rightharpoonup> json"
  meta :: "nat \<rightharpoonup> MetaClientState"

record changes =
  added :: "nat list"
  updated :: "nat list"
  removed :: "nat list"

datatype event = Emit string changes string

text \<open>
  \<open>states.get(clientID) || null\<close>, the expression of \<open>getLocalState\<close> and of
  \<open>encodeAwarenessUpdate\<close>: \<open>null\<close> for a missing entry and for a falsy one.
\<close>

definition stateOrNull :: "(nat \<rightharpoonup> json) \<Rightarrow> nat \<Rightarrow> json" where
  "stateOrNull sts cid =
     (case sts cid of
        None \<Rightarrow> JNull
      | Some s \<Rightarrow> if truthy s then s else JNull)"

definition getLocalState :: "Awareness \<Rightarrow> json" where
  "getLocalState aw = stateOrNull (states aw) (clientID aw)"

definition setLocalState ::
    "(json option \<Rightarrow> json option \<Rightarrow> bool) \<Rightarrow> nat \<Rightarrow> json \<Rightarrow> Awareness \<Rightarrow>
     Awareness \<times> event list" where
  "setLocalState equalityDeep now st aw =
     (let cid = clientID aw;
          currLocalMeta = meta aw cid;
          clk = (case currLocalMeta of None \<Rightarrow> 0 | Some m \<Rightarrow> jsPlusOne (clock m));
          prevState = states aw cid;
          aw' = aw\<lparr>states := (if st = JNull then (states aw)(cid := None)
                               else (states aw)(cid \<mapsto> st)),
                    meta := (meta aw)(cid \<mapsto> \<lparr>clock = clk, lastUpdated = now\<rparr>)\<rparr>;
          prevNull = (prevState = None \<or> prevState = Some JNull);
          removed' = (if st = JNull then [cid] else []);
          added' = (if st \<noteq> JNull \<and> prevNull then [cid] else []);
          updated' = (if st \<noteq> JNull \<and> \<not> prevNull then [cid] else []);
          filteredUpdated' =
            (if st \<noteq> JNull \<and> \<not> prevNull \<and> \<not> equalityDeep prevState (Some st)
             then [cid] else [])
      in (aw',
          (if added' \<noteq> [] \<or> filteredUpdated' \<noteq> [] \<or> removed' \<noteq> []
           then [Emit ''change''
                   \<lparr>added = added', updated = filteredUpdated', removed = removed'\<rparr> ''local'']
           else []) @
          [Emit ''update''
             \<lparr>added = added', updated = updated', removed = removed'\<rparr> ''local'']))"

text \<open>
  The constructor: both maps empty, then \<open>this.setLocalState({})\<close>. The interval timer
  and the events of the constructor are left out.
\<close>

definition Awareness_new ::
    "(json option \<Rightarrow> json option \<Rightarrow> bool) \<Rightarrow> nat \<Rightarrow> nat \<Rightarrow> Awareness" where
  "Awareness_new equalityDeep now docClientID =
     fst (setLocalState equalityDeep now (JObj [])
            \<lparr>clientID = docClientID, states = Map.empty, meta = Map.empty\<rparr>)"

text \<open>
  \<open>removeAwarenessStates\<close>: the loop over \<open>clients\<close>, with the list \<open>removed\<close> as
  accumulator. \<open>awareness.meta.get(clientID)\<close> is read without a check, so a local
  client with a state and no meta entry is a \<open>TypeError\<close>, raised after the state has
  been deleted.
\<close>

fun removeLoop ::
    "nat \<Rightarrow> nat list \<Rightarrow> Awareness \<Rightarrow> nat list \<Rightarrow>
     (error \<times> Awareness) + (Awareness \<times> nat list)" where
  "removeLoop now [] aw rem = Inr (aw, rem)"
| "removeLoop now (c # cs) aw rem =
     (if states aw c \<noteq> None then
        (let aw1 = aw\<lparr>states := (states aw)(c := None)\<rparr>
         in if c = clientID aw then
              (case meta aw1 c of
                 None \<Rightarrow> Inl (TypeError, aw1)
               | Some curMeta \<Rightarrow>
                   removeLoop now cs
                     (aw1\<lparr>meta := (meta aw1)(c \<mapsto>
                         \<lparr>clock = jsPlusOne (clock curMeta), lastUpdated = now\<rparr>)\<rparr>)
                     (rem @ [c]))
            else removeLoop now cs aw1 (rem @ [c]))
      else removeLoop now cs aw rem)"

definition removeAwarenessStates ::
    "nat \<Rightarrow> nat list \<Rightarrow> string \<Rightarrow> Awareness \<Rightarrow>
     (error \<times> Awareness) + (Awareness \<times> event list)" where
  "removeAwarenessStates now clients origin aw =
     (case removeLoop now clients aw [] of
        Inl e \<Rightarrow> Inl e
      | Inr (aw', rem) \<Rightarrow>
          Inr (aw',
               if rem \<noteq> [] then
                 [Emit ''change'' \<lparr>added = [], updated = [], removed = rem\<rparr> origin,
                  Emit ''update'' \<lparr>added = [], updated = [], removed = rem\<rparr> origin]
               else []))"

text \<open>
  \<open>encodeAwarenessUpdate\<close>: the third argument is the optional \<open>states\<close>, which
  defaults to the store's own. A client without a meta entry is a \<open>TypeError\<close>.
\<close>

fun encodeLoop ::
    "(json \<Rightarrow> byte list) \<Rightarrow> Awareness \<Rightarrow> (nat \<rightharpoonup> json) \<Rightarrow> nat list \<Rightarrow> byte list \<Rightarrow>
     error + byte list" where
  "encodeLoop stringify aw sts [] encoder = Inr encoder"
| "encodeLoop stringify aw sts (c # cs) encoder =
     (let st = stateOrNull sts c
      in case meta aw c of
           None \<Rightarrow> Inl TypeError
         | Some m \<Rightarrow>
             encodeLoop stringify aw sts cs
               (encoder @ writeVarUint c @ writeVarUint (clock m) @
                writeVarString (stringify st)))"

definition encodeAwarenessUpdateWith ::
    "(json \<Rightarrow> byte list) \<Rightarrow> Awareness \<Rightarrow> nat list \<Rightarrow> (nat \<rightharpoonup> json) \<Rightarrow> error + byte list" where
  "encodeAwarenessUpdateWith stringify aw clients sts =
     encodeLoop stringify aw sts clients (writeVarUint (length clients))"

definition encodeAwarenessUpdate ::
    "(json \<Rightarrow> byte list) \<Rightarrow> Awareness \<Rightarrow> nat list \<Rightarrow> error + byte list" where
  "encodeAwarenessUpdate stringify aw clients =
     encodeAwarenessUpdateWith stringify aw clients (states aw)"

text \<open>
  \<open>applyAwarenessUpdate\<close>. One pass of the loop first reads a client id, a clock and a
  state from the decoder (\<open>readEntry\<close>), then merges them into the store
  (\<open>applyEntry\<close>). The four lists the loop fills are the record \<open>classified\<close>;
  \<open>now\<close> is the constant \<open>timestamp\<close> of the source, read once before the loop.
\<close>

record classified =
  c_added :: "nat list"
  c_updated :: "nat list"
  c_filteredUpdated :: "nat list"
  c_removed :: "nat list"

definition readEntry ::
    "(byte list \<Rightarrow> json option) \<Rightarrow> byte list \<Rightarrow>
     error + ((nat \<times> nat \<times> json) \<times> byte list)" where
  "readEntry parse dec =
     (case readVarUint dec of
        Inl e \<Rightarrow> Inl e
      | Inr (cid, d1) \<Rightarrow>
          (case readVarUint d1 of
             Inl e \<Rightarrow> Inl e
           | Inr (clk, d2) \<Rightarrow>
               (case readVarString d2 of
                  Inl e \<Rightarrow> Inl e
                | Inr (txt, d3) \<Rightarrow>
                    (case parse txt of
                       None \<Rightarrow> Inl SyntaxError
                     | Some st \<Rightarrow> Inr ((cid, clk, st), d3)))))"

definition applyEntry ::
    "(json option \<Rightarrow> json option \<Rightarrow> bool) \<Rightarrow> nat \<Rightarrow> nat \<times> nat \<times> json \<Rightarrow>
     Awareness \<times> classified \<Rightarrow> Awareness \<times> classified" where
  "applyEntry equalityDeep now entry acc =
     (case entry of (cid, clk, st) \<Rightarrow> case acc of (aw, cl) \<Rightarrow>
       let clientMeta = meta aw cid;
           prevState = states aw cid;
           currClock = (case clientMeta of None \<Rightarrow> 0 | Some m \<Rightarrow> clock m)
       in if currClock < clk \<or> (currClock = clk \<and> st = JNull \<and> states aw cid \<noteq> None) then
            (let keep = (st = JNull \<and> cid = clientID aw \<and> getLocalState aw \<noteq> JNull);
                 clk' = (if keep then jsPlusOne clk else clk);
                 states' = (if st = JNull
                            then (if keep then states aw else (states aw)(cid := None))
                            else (states aw)(cid \<mapsto> st));
                 aw' = aw\<lparr>states := states',
                           meta := (meta aw)(cid \<mapsto> \<lparr>clock = clk', lastUpdated = now\<rparr>)\<rparr>;
                 cl' = (if clientMeta = None \<and> st \<noteq> JNull then
                          cl\<lparr>c_added := c_added cl @ [cid]\<rparr>
                        else if clientMeta \<noteq> None \<and> st = JNull then
                          cl\<lparr>c_removed := c_removed cl @ [cid]\<rparr>
                        else if st \<noteq> JNull then
                          (if \<not> equalityDeep (Some st) prevState
                           then cl\<lparr>c_filteredUpdated := c_filteredUpdated cl @ [cid]\<rparr>
                           else cl)\<lparr>c_updated := c_updated cl @ [cid]\<rparr>
                        else cl)
             in (aw', cl'))
          else (aw, cl))"

primrec applyLoop ::
    "(byte list \<Rightarrow> json option) \<Rightarrow> (json option \<Rightarrow> json option \<Rightarrow> bool) \<Rightarrow> nat \<Rightarrow>
     nat \<Rightarrow> byte list \<Rightarrow> Awareness \<times> classified \<Rightarrow>
     (error \<times> Awareness) + (Awareness \<times> classified)" where
  "applyLoop parse equalityDeep now 0 dec acc = Inr acc"
| "applyLoop parse equalityDeep now (Suc n) dec acc =
     (case readEntry parse dec of
        Inl e \<Rightarrow> Inl (e, fst acc)
      | Inr (entry, dec') \<Rightarrow>
          applyLoop parse equalityDeep now n dec'
            (applyEntry equalityDeep now entry acc))"

definition emitClassified :: "classified \<Rightarrow> string \<Rightarrow> event list" where
  "emitClassified cl origin =
     (if c_added cl \<noteq> [] \<or> c_filteredUpdated cl \<noteq> [] \<or> c_removed cl \<noteq> []
      then [Emit ''change''
              \<lparr>added = c_added cl, updated = c_filteredUpdated cl, removed = c_removed cl\<rparr>
              origin]
      else []) @
     (if c_added cl \<noteq> [] \<or> c_updated cl \<noteq> [] \<or> c_removed cl \<noteq> []
      then [Emit ''update''
              \<lparr>added = c_added cl, updated = c_updated cl, removed = c_removed cl\<rparr> origin]
      else [])"

definition noneClassified :: classified where
  "noneClassified = \<lparr>c_added = [], c_updated = [], c_filteredUpdated = [], c_removed = []\<rparr>"

definition applyAwarenessUpdate ::
    "(byte list \<Rightarrow> json option) \<Rightarrow> (json option \<Rightarrow> json option \<Rightarrow> bool) \<Rightarrow> nat \<Rightarrow>
     byte list \<Rightarrow> string \<Rightarrow> Awareness \<Rightarrow> (error \<times> Awareness) + (Awareness \<times> event list)" where
  "applyAwarenessUpdate parse equalityDeep now update origin aw =
     (case readVarUint update of
        Inl e \<Rightarrow> Inl (e, aw)
      | Inr (len, dec) \<Rightarrow>
          (case applyLoop parse equalityDeep now len dec (aw, noneClassified) of
             Inl e \<Rightarrow> Inl e
           | Inr (aw', cl) \<Rightarrow> Inr (aw', emitClassified cl origin)))"

text \<open>
  The entries an update carries: what the loop of \<open>applyAwarenessUpdate\<close> reads, in
  order, without the merge.
\<close>

primrec decodeLoop ::
    "(byte list \<Rightarrow> json option) \<Rightarrow> nat \<Rightarrow> byte list \<Rightarrow> error + (nat \<times> nat \<times> json) list" where
  "decodeLoop parse 0 dec = Inr []"
| "decodeLoop parse (Suc n) dec =
     (case readEntry parse dec of
        Inl e \<Rightarrow> Inl e
      | Inr (entry, dec') \<Rightarrow>
          (case decodeLoop parse n dec' of
             Inl e \<Rightarrow> Inl e
           | Inr es \<Rightarrow> Inr (entry # es)))"

definition decodeAwarenessUpdate ::
    "(byte list \<Rightarrow> json option) \<Rightarrow> byte list \<Rightarrow> error + (nat \<times> nat \<times> json) list" where
  "decodeAwarenessUpdate parse update =
     (case readVarUint update of
        Inl e \<Rightarrow> Inl e
      | Inr (len, dec) \<Rightarrow> decodeLoop parse len dec)"

section \<open>Notions of the specification\<close>

text \<open>
  The clock the store knows for a client, a missing meta entry counting as clock 0
  (\<open>currClock\<close> in \<open>applyAwarenessUpdate\<close>).
\<close>

definition localClock :: "Awareness \<Rightarrow> nat \<Rightarrow> nat" where
  "localClock aw cid = (case meta aw cid of None \<Rightarrow> 0 | Some m \<Rightarrow> clock m)"

text \<open>
  The acceptance test of the specification for an entry \<open>(cid, clk, st)\<close>: a newer
  clock, or the same clock with a \<open>null\<close> state for a client that has a state.
\<close>

definition accepted :: "Awareness \<Rightarrow> nat \<times> nat \<times> json \<Rightarrow> bool" where
  "accepted aw entry =
     (case entry of (cid, clk, st) \<Rightarrow>
        localClock aw cid < clk \<or>
        (localClock aw cid = clk \<and> st = JNull \<and> states aw cid \<noteq> None))"

text \<open>
  A fragment of \<open>JSON.stringify\<close> and \<open>JSON.parse\<close>, for evaluating the codec on
  concrete stores: the texts \<open>null\<close>, \<open>false\<close>, \<open>true\<close>, \<open>{}\<close> and
  \<open>{"x":{}}\<close> as UTF-8 bytes, and the values they denote. The theorems below hold for
  every \<open>stringify\<close> and \<open>parse\<close>; these two only instantiate them, on values of
  the fragment. Outside it they are not the functions of the runtime:
  \<open>stringifyFragment\<close> answers the text \<open>null\<close> and \<open>parseFragment\<close> fails.
\<close>

fun stringifyFragment :: "json \<Rightarrow> byte list" where
  "stringifyFragment (JBool False) = [0x66, 0x61, 0x6C, 0x73, 0x65]"
| "stringifyFragment (JBool True) = [0x74, 0x72, 0x75, 0x65]"
| "stringifyFragment (JObj []) = [0x7B, 0x7D]"
| "stringifyFragment (JObj [(k, JObj [])]) =
     (if k = ''x'' then [0x7B, 0x22, 0x78, 0x22, 0x3A, 0x7B, 0x7D, 0x7D]
      else [0x6E, 0x75, 0x6C, 0x6C])"
| "stringifyFragment v = [0x6E, 0x75, 0x6C, 0x6C]"

definition parseFragment :: "byte list \<Rightarrow> json option" where
  "parseFragment txt =
     (if txt = [0x6E, 0x75, 0x6C, 0x6C] then Some JNull
      else if txt = [0x66, 0x61, 0x6C, 0x73, 0x65] then Some (JBool False)
      else if txt = [0x74, 0x72, 0x75, 0x65] then Some (JBool True)
      else if txt = [0x7B, 0x7D] then Some (JObj [])
      else if txt = [0x7B, 0x22, 0x78, 0x22, 0x3A, 0x7B, 0x7D, 0x7D]
        then Some (JObj [(''x'', JObj [])])
      else None)"

text \<open>
  The bytes \<open>encodeAwarenessUpdate\<close> writes for one client with a meta entry: its id,
  its clock and the text of its state or of \<open>null\<close>.
\<close>

definition entryBytes ::
    "(json \<Rightarrow> byte list) \<Rightarrow> Awareness \<Rightarrow> (nat \<rightharpoonup> json) \<Rightarrow> nat \<Rightarrow> byte list" where
  "entryBytes stringify aw sts c =
     writeVarUint c @ writeVarUint (localClock aw c) @
     writeVarString (stringify (stateOrNull sts c))"

text \<open>
  The clocks of a store, without the times: what the acceptance test reads of \<open>meta\<close>.
\<close>

definition clocks :: "Awareness \<Rightarrow> (nat \<rightharpoonup> nat)" where
  "clocks aw = (\<lambda>cid. map_option clock (meta aw cid))"

text \<open>
  An entry that asks the local client, online, to go: it is accepted at the client's own
  clock, and where \<open>jsPlusOne\<close> does not move that clock it only renews
  \<open>lastUpdated\<close>.
\<close>

definition renewing :: "Awareness \<Rightarrow> nat \<times> nat \<times> json \<Rightarrow> bool" where
  "renewing aw entry =
     (case entry of (cid, clk, st) \<Rightarrow>
        st = JNull \<and> cid = clientID aw \<and> getLocalState aw \<noteq> JNull \<and>
        localClock aw cid = clk \<and> jsPlusOne clk = clk)"

definition settled :: "Awareness \<Rightarrow> nat \<times> nat \<times> json \<Rightarrow> bool" where
  "settled aw entry = (\<not> accepted aw entry \<or> renewing aw entry)"

section \<open>Incrementing a clock\<close>

lemma jsPlusOne_safe: "c < 2 ^ 53 \<Longrightarrow> jsPlusOne c = c + 1"
  by (simp add: jsPlusOne_def)

lemma jsPlusOne_ge: "c \<le> jsPlusOne c"
  by (simp add: jsPlusOne_def)

lemma jsPlusOne_stuck: "jsPlusOne c = c \<Longrightarrow> 2 ^ 53 \<le> c"
  by (simp add: jsPlusOne_def split: if_splits)

section \<open>The register\<close>

text \<open>
  Claim C3. \<open>merge\<close> keeps the register as it is when the local timestamp is larger, and
  when the timestamps are equal and the peers differ; in every other case (a smaller local
  timestamp, or equal timestamps and equal peers) the register's state becomes the remote
  state, whole. The register's id never changes.
\<close>

theorem LWWRegister_merge_rule:
  "(timestamp (state r) > timestamp s \<longrightarrow> LWWRegister_merge s r = r) \<and>
   (timestamp (state r) = timestamp s \<and> peer (state r) \<noteq> peer s \<longrightarrow>
      LWWRegister_merge s r = r) \<and>
   (timestamp (state r) < timestamp s \<or>
    (timestamp (state r) = timestamp s \<and> peer (state r) = peer s) \<longrightarrow>
      LWWRegister_merge s r = r\<lparr>state := s\<rparr>)"
  by (auto simp: LWWRegister_merge_def Let_def)

theorem LWWRegister_merge_rule_witness:
  "LWWRegister_merge \<lparr>peer = ''bob'', timestamp = 3, val = ''b''\<rparr>
      \<lparr>reg_id = ''alice'', state = \<lparr>peer = ''alice'', timestamp = 5, val = ''a''\<rparr>\<rparr>
    = \<lparr>reg_id = ''alice'', state = \<lparr>peer = ''alice'', timestamp = 5, val = ''a''\<rparr>\<rparr> \<and>
   LWWRegister_merge \<lparr>peer = ''bob'', timestamp = 5, val = ''b''\<rparr>
      \<lparr>reg_id = ''alice'', state = \<lparr>peer = ''alice'', timestamp = 5, val = ''a''\<rparr>\<rparr>
    = \<lparr>reg_id = ''alice'', state = \<lparr>peer = ''alice'', timestamp = 5, val = ''a''\<rparr>\<rparr> \<and>
   LWWRegister_merge \<lparr>peer = ''bob'', timestamp = 7, val = ''b''\<rparr>
      \<lparr>reg_id = ''alice'', state = \<lparr>peer = ''alice'', timestamp = 5, val = ''a''\<rparr>\<rparr>
    = \<lparr>reg_id = ''alice'', state = \<lparr>peer = ''bob'', timestamp = 7, val = ''b''\<rparr>\<rparr>"
  using
    LWWRegister_merge_rule
      [where r = "\<lparr>reg_id = ''alice'', state = \<lparr>peer = ''alice'', timestamp = 5, val = ''a''\<rparr>\<rparr>"
       and s = "\<lparr>peer = ''bob'', timestamp = 3, val = ''b''\<rparr>"]
    LWWRegister_merge_rule
      [where r = "\<lparr>reg_id = ''alice'', state = \<lparr>peer = ''alice'', timestamp = 5, val = ''a''\<rparr>\<rparr>"
       and s = "\<lparr>peer = ''bob'', timestamp = 5, val = ''b''\<rparr>"]
    LWWRegister_merge_rule
      [where r = "\<lparr>reg_id = ''alice'', state = \<lparr>peer = ''alice'', timestamp = 5, val = ''a''\<rparr>\<rparr>"
       and s = "\<lparr>peer = ''bob'', timestamp = 7, val = ''b''\<rparr>"]
  by simp

section \<open>The keyed register map\<close>

text \<open>
  For a key that has a register, \<open>has\<close> tells whether the value is the tombstone. For a
  key without a register the optional chain yields \<open>undefined\<close>, which is not
  \<open>null\<close>, so \<open>has\<close> answers true.
\<close>

lemma LWWMap_has_present:
  "data m key = Some register \<Longrightarrow> LWWMap_has m key = (LWWRegister_value register \<noteq> JNull)"
  by (simp add: LWWMap_has_def LWWMap_lookup_value_def)

lemma LWWMap_has_absent: "data m key = None \<Longrightarrow> LWWMap_has m key"
  by (simp add: LWWMap_has_def LWWMap_lookup_value_def)

text \<open>
  Claim C5 says that \<open>has(key)\<close> is false for every key that was never set. On the map
  constructed from the empty state, \<open>has\<close> of any key, here \<open>k\<close>, is true.
\<close>

theorem LWWMap_has_missing_key: "LWWMap_has (LWWMap_new ''alice'' []) ''k'' = True"
  by (simp add: LWWMap_has_def LWWMap_lookup_value_def LWWMap_new_def)

text \<open>
  \<open>get\<close> returns the stored value when it is truthy, and \<open>undefined\<close> for a missing
  key, for a tombstone and for every other falsy value.
\<close>

lemma LWWMap_get_present:
  "data m key = Some register \<Longrightarrow>
   LWWMap_get m key =
     (if truthy (LWWRegister_value register) then Some (LWWRegister_value register) else None)"
  by (simp add: LWWMap_get_def LWWMap_lookup_value_def)

lemma LWWMap_get_absent: "data m key = None \<Longrightarrow> LWWMap_get m key = None"
  by (simp add: LWWMap_get_def LWWMap_lookup_value_def)

text \<open>
  Claim C6 says that \<open>get(key)\<close> returns every stored value that is not the tombstone,
  0 included. After \<open>set("k", 0)\<close> on an empty map, \<open>get("k")\<close> is \<open>undefined\<close>,
  while \<open>value\<close> lists the key with the value 0 and \<open>has("k")\<close> is true.
\<close>

theorem LWWMap_get_falsy_value:
  "LWWMap_get (LWWMap_set ''k'' (JNum 0) (LWWMap_new ''alice'' [])) ''k'' = None \<and>
   LWWMap_value (LWWMap_set ''k'' (JNum 0) (LWWMap_new ''alice'' [])) ''k'' = Some (JNum 0) \<and>
   LWWMap_has (LWWMap_set ''k'' (JNum 0) (LWWMap_new ''alice'' [])) ''k'' = True"
  by (simp add: LWWMap_get_def LWWMap_has_def LWWMap_value_def LWWMap_lookup_value_def
      LWWMap_set_def LWWMap_new_def LWWRegister_value_def LWWRegister_new_def)

section \<open>The local state of the awareness store\<close>

text \<open>
  Claim C10 says that \<open>setLocalState\<close> always stores the previous clock plus 1. A new
  store of client 7 accepts a remote entry for client 7 with the clock \<open>2^53\<close>
  (\<open>9007199254740992\<close>) and stores that clock. From there \<open>setLocalState\<close>, with
  an object as with \<open>null\<close>, stores \<open>2^53\<close> again: the sum of the two numbers is
  \<open>2^53\<close>, and the clock is not bumped.
\<close>

theorem setLocalState_clock_counterexample:
  "applyEntry (=) 20 (7, 9007199254740992, JObj [(''x'', JObj [])])
       (Awareness_new (=) 20 7, noneClassified)
     = (\<lparr>clientID = 7, states = [7 \<mapsto> JObj [(''x'', JObj [])]],
         meta = [7 \<mapsto> \<lparr>clock = 9007199254740992, lastUpdated = 20\<rparr>]\<rparr>,
        \<lparr>c_added = [], c_updated = [7], c_filteredUpdated = [7], c_removed = []\<rparr>) \<and>
   meta (fst (setLocalState (=) 70 (JObj [])
       \<lparr>clientID = 7, states = [7 \<mapsto> JObj [(''x'', JObj [])]],
        meta = [7 \<mapsto> \<lparr>clock = 9007199254740992, lastUpdated = 20\<rparr>]\<rparr>)) 7
     = Some \<lparr>clock = 9007199254740992, lastUpdated = 70\<rparr> \<and>
   meta (fst (setLocalState (=) 70 JNull
       \<lparr>clientID = 7, states = [7 \<mapsto> JObj [(''x'', JObj [])]],
        meta = [7 \<mapsto> \<lparr>clock = 9007199254740992, lastUpdated = 20\<rparr>]\<rparr>)) 7
     = Some \<lparr>clock = 9007199254740992, lastUpdated = 70\<rparr>"
proof -
  have n: "Awareness_new (=) 20 7 =
      \<lparr>clientID = 7, states = [7 \<mapsto> JObj []], meta = [7 \<mapsto> \<lparr>clock = 0, lastUpdated = 20\<rparr>]\<rparr>"
    by (simp add: Awareness_new_def setLocalState_def Let_def)
  have j: "jsPlusOne 9007199254740992 = 9007199254740992"
    by (simp add: jsPlusOne_def)
  show ?thesis
    by (simp add: n j applyEntry_def noneClassified_def setLocalState_def Let_def)
qed

text \<open>
  Claim C10, amended. After \<open>setLocalState\<close>, with any state, the local client's meta
  entry has clock 0 if there was no entry and otherwise the JavaScript sum of the previous
  clock and 1, which is the previous clock plus 1 whenever the previous clock is below
  \<open>2^53\<close>; \<open>lastUpdated\<close> is the current time. With \<open>null\<close> the local state is
  removed as well, so going offline bumps a clock below \<open>2^53\<close> too.
\<close>

theorem setLocalState_clock:
  "meta (fst (setLocalState equalityDeep now st aw)) (clientID aw) =
     Some \<lparr>clock = (case meta aw (clientID aw) of None \<Rightarrow> 0 | Some m \<Rightarrow> jsPlusOne (clock m)),
           lastUpdated = now\<rparr> \<and>
   (meta aw (clientID aw) = Some m \<and> clock m < 2 ^ 53 \<longrightarrow>
      meta (fst (setLocalState equalityDeep now st aw)) (clientID aw) =
        Some \<lparr>clock = clock m + 1, lastUpdated = now\<rparr>) \<and>
   states (fst (setLocalState equalityDeep now JNull aw)) (clientID aw) = None"
  by (simp add: setLocalState_def Let_def jsPlusOne_safe)

theorem setLocalState_clock_witness:
  "meta (fst (setLocalState (=) 70 JNull
      \<lparr>clientID = 1, states = [1 \<mapsto> JObj []],
      meta = [1 \<mapsto> \<lparr>clock = 3, lastUpdated = 20\<rparr>]\<rparr>)) 1
     = Some \<lparr>clock = 4, lastUpdated = 70\<rparr> \<and>
   meta (fst (setLocalState (=) 70 JNull
      \<lparr>clientID = 1, states = Map.empty, meta = Map.empty\<rparr>)) 1
     = Some \<lparr>clock = 0, lastUpdated = 70\<rparr>"
  using
    setLocalState_clock [of "(=)" 70 JNull
      "\<lparr>clientID = 1, states = [1 \<mapsto> JObj []],
      meta = [1 \<mapsto> \<lparr>clock = 3, lastUpdated = 20\<rparr>]\<rparr>" "\<lparr>clock = 3, lastUpdated = 20\<rparr>"]
    setLocalState_clock [of "(=)" 70 JNull
      "\<lparr>clientID = 1, states = Map.empty, meta = Map.empty\<rparr>" "\<lparr>clock = 3, lastUpdated = 20\<rparr>"]
  by (simp add: jsPlusOne_def)

text \<open>
  The local client has a meta entry from the constructor on: no operation removes a meta
  entry or changes the client id.
\<close>

lemma Awareness_new_local_meta:
  "meta (Awareness_new equalityDeep now cid)
     (clientID (Awareness_new equalityDeep now cid)) \<noteq> None"
  by (simp add: Awareness_new_def setLocalState_def Let_def)

lemma setLocalState_local_meta:
  "meta (fst (setLocalState equalityDeep now st aw))
     (clientID (fst (setLocalState equalityDeep now st aw))) \<noteq> None"
  by (simp add: setLocalState_def Let_def)

lemma applyEntry_local_meta:
  "meta aw (clientID aw) \<noteq> None \<Longrightarrow>
   meta (fst (applyEntry equalityDeep now entry (aw, cl)))
     (clientID (fst (applyEntry equalityDeep now entry (aw, cl)))) \<noteq> None"
  by (cases entry) (auto simp: applyEntry_def Let_def split: option.splits)

lemma removeLoop_local_meta:
  "removeLoop now cs aw rem = Inr (aw', rem') \<Longrightarrow> meta aw (clientID aw) \<noteq> None \<Longrightarrow>
   meta aw' (clientID aw') \<noteq> None"
proof (induction cs arbitrary: aw rem)
  case Nil
  then show ?case by auto
next
  case (Cons c cs)
  show ?case
  proof (cases "states aw c \<noteq> None")
    case True
    note has = True
    show ?thesis
    proof (cases "c = clientID aw")
      case True
      from Cons.prems(2) obtain m where m: "meta aw (clientID aw) = Some m" by auto
      let ?aw2 = "aw\<lparr>states := (states aw)(c := None),
                    meta := (meta aw)(c \<mapsto> \<lparr>clock = jsPlusOne (clock m), lastUpdated = now\<rparr>)\<rparr>"
      have "removeLoop now cs ?aw2 (rem @ [c]) = Inr (aw', rem')"
        using Cons.prems(1) has True m by simp
      moreover have "meta ?aw2 (clientID ?aw2) \<noteq> None" using True by simp
      ultimately show ?thesis by (rule Cons.IH)
    next
      case False
      let ?aw1 = "aw\<lparr>states := (states aw)(c := None)\<rparr>"
      have "removeLoop now cs ?aw1 (rem @ [c]) = Inr (aw', rem')"
        using Cons.prems(1) has False by simp
      moreover have "meta ?aw1 (clientID ?aw1) \<noteq> None" using Cons.prems(2) by simp
      ultimately show ?thesis by (rule Cons.IH)
    qed
  next
    case False
    with Cons.prems(1) have "removeLoop now cs aw rem = Inr (aw', rem')" by simp
    then show ?thesis using Cons.prems(2) by (rule Cons.IH)
  qed
qed

section \<open>Removing states\<close>

text \<open>
  Once the local client has no state, the rest of the loop leaves its state and every meta
  entry alone and does not fail.
\<close>

lemma removeLoop_local_offline:
  "states aw (clientID aw) = None \<Longrightarrow>
   \<exists>aw' rem'. removeLoop now cs aw rem = Inr (aw', rem') \<and> clientID aw' = clientID aw \<and>
      states aw' (clientID aw) = None \<and> meta aw' = meta aw"
proof (induction cs arbitrary: aw rem)
  case Nil
  then show ?case by simp
next
  case (Cons c cs)
  show ?case
  proof (cases "states aw c \<noteq> None")
    case True
    with Cons.prems have ne: "c \<noteq> clientID aw" by auto
    let ?aw1 = "aw\<lparr>states := (states aw)(c := None)\<rparr>"
    have "states ?aw1 (clientID ?aw1) = None" using Cons.prems by simp
    from Cons.IH [OF this, of "rem @ [c]"] True ne show ?thesis by simp
  next
    case False
    with Cons.IH [OF Cons.prems, of rem] show ?thesis by simp
  qed
qed

lemma removeLoop_rem_mono:
  "removeLoop now cs aw rem = Inr (aw', rem') \<Longrightarrow> set rem \<subseteq> set rem'"
proof (induction cs arbitrary: aw rem)
  case Nil
  then show ?case by simp
next
  case (Cons c cs)
  then show ?case
    by (fastforce simp: Let_def split: if_splits option.splits)
qed

lemma removeLoop_local:
  "clientID aw \<in> set cs \<Longrightarrow> states aw (clientID aw) \<noteq> None \<Longrightarrow>
   meta aw (clientID aw) = Some m \<Longrightarrow>
   \<exists>aw' rem'. removeLoop now cs aw rem = Inr (aw', rem') \<and> clientID aw' = clientID aw \<and>
      states aw' (clientID aw) = None \<and>
      meta aw' = (meta aw)(clientID aw \<mapsto> \<lparr>clock = jsPlusOne (clock m), lastUpdated = now\<rparr>) \<and>
      clientID aw \<in> set rem'"
proof (induction cs arbitrary: aw rem)
  case Nil
  then show ?case by simp
next
  case (Cons c cs)
  show ?case
  proof (cases "c = clientID aw")
    case True
    let ?aw2 = "aw\<lparr>states := (states aw)(c := None),
                    meta := (meta aw)(c \<mapsto> \<lparr>clock = jsPlusOne (clock m), lastUpdated = now\<rparr>)\<rparr>"
    have step: "removeLoop now (c # cs) aw rem = removeLoop now cs ?aw2 (rem @ [c])"
      using True Cons.prems by simp
    have "states ?aw2 (clientID ?aw2) = None" using True by simp
    from removeLoop_local_offline [OF this, of now cs "rem @ [c]"]
    obtain aw' rem' where r: "removeLoop now cs ?aw2 (rem @ [c]) = Inr (aw', rem')"
      "clientID aw' = clientID ?aw2" "states aw' (clientID ?aw2) = None" "meta aw' = meta ?aw2"
      by blast
    have "set (rem @ [c]) \<subseteq> set rem'" using r(1) by (rule removeLoop_rem_mono)
    with step r True show ?thesis by auto
  next
    case False
    show ?thesis
    proof (cases "states aw c \<noteq> None")
      case True
      let ?aw1 = "aw\<lparr>states := (states aw)(c := None)\<rparr>"
      have "clientID ?aw1 \<in> set cs" "states ?aw1 (clientID ?aw1) \<noteq> None"
        "meta ?aw1 (clientID ?aw1) = Some m"
        using Cons.prems False by auto
      from Cons.IH [OF this, of "rem @ [c]"] True False show ?thesis by simp
    next
      case nostate: False
      have "clientID aw \<in> set cs" using Cons.prems False by auto
      from Cons.IH [OF this Cons.prems(2,3), of rem] nostate show ?thesis by simp
    qed
  qed
qed

text \<open>
  Claim C1 says that \<open>removeAwarenessStates\<close> leaves the state of the local client in
  place when the local id is in the list. On a store whose only client is the local one,
  online with clock 3, the call with the list \<open>[7]\<close> yields a store with no state at
  all: the local entry is deleted and reported in \<open>removed\<close>, and its clock is 4. With
  the clock \<open>2^53\<close> the state is deleted as well and the clock stays \<open>2^53\<close>.
\<close>

theorem removeAwarenessStates_local_counterexample:
  "removeAwarenessStates 70 [7] ''timeout''
     \<lparr>clientID = 7, states = [7 \<mapsto> JObj []],
      meta = [7 \<mapsto> \<lparr>clock = 3, lastUpdated = 20\<rparr>]\<rparr>
   = Inr (\<lparr>clientID = 7, states = Map.empty,
           meta = [7 \<mapsto> \<lparr>clock = 4, lastUpdated = 70\<rparr>]\<rparr>,
          [Emit ''change'' \<lparr>added = [], updated = [], removed = [7]\<rparr> ''timeout'',
           Emit ''update'' \<lparr>added = [], updated = [], removed = [7]\<rparr> ''timeout'']) \<and>
   removeAwarenessStates 70 [7] ''timeout''
     \<lparr>clientID = 7, states = [7 \<mapsto> JObj []],
      meta = [7 \<mapsto> \<lparr>clock = 9007199254740992, lastUpdated = 20\<rparr>]\<rparr>
   = Inr (\<lparr>clientID = 7, states = Map.empty,
           meta = [7 \<mapsto> \<lparr>clock = 9007199254740992, lastUpdated = 70\<rparr>]\<rparr>,
          [Emit ''change'' \<lparr>added = [], updated = [], removed = [7]\<rparr> ''timeout'',
           Emit ''update'' \<lparr>added = [], updated = [], removed = [7]\<rparr> ''timeout''])"
  by (simp add: removeAwarenessStates_def jsPlusOne_def)

text \<open>
  Claim C1, amended. When the list contains the local id and the local client has a state
  (and, as always after construction, a meta entry), \<open>removeAwarenessStates\<close> returns
  normally and emits the \<open>change\<close> and the \<open>update\<close> event, both with the same list
  \<open>removed\<close>, which contains the local id. The local client's state is deleted, its
  \<open>lastUpdated\<close> is the current time, and its clock is the JavaScript sum of the
  previous clock and 1: the previous clock plus 1 whenever that is below \<open>2^53\<close>.
\<close>

theorem removeAwarenessStates_local:
  assumes "clientID aw \<in> set clients"
    and "states aw (clientID aw) \<noteq> None"
    and "meta aw (clientID aw) = Some m"
  shows "\<exists>aw' rem.
           removeAwarenessStates now clients origin aw =
             Inr (aw',
                  [Emit ''change'' \<lparr>added = [], updated = [], removed = rem\<rparr> origin,
                   Emit ''update'' \<lparr>added = [], updated = [], removed = rem\<rparr> origin]) \<and>
           clientID aw \<in> set rem \<and>
           states aw' (clientID aw) = None \<and>
           meta aw' (clientID aw) = Some \<lparr>clock = jsPlusOne (clock m), lastUpdated = now\<rparr> \<and>
           (clock m < 2 ^ 53 \<longrightarrow>
              meta aw' (clientID aw) = Some \<lparr>clock = clock m + 1, lastUpdated = now\<rparr>)"
proof -
  from removeLoop_local [OF assms, of now "[]"]
  obtain aw' rem' where r: "removeLoop now clients aw [] = Inr (aw', rem')"
    "states aw' (clientID aw) = None"
    "meta aw' = (meta aw)(clientID aw \<mapsto> \<lparr>clock = jsPlusOne (clock m), lastUpdated = now\<rparr>)"
    "clientID aw \<in> set rem'"
    by blast
  then have ne: "rem' \<noteq> []" by auto
  have "removeAwarenessStates now clients origin aw =
          Inr (aw',
               [Emit ''change'' \<lparr>added = [], updated = [], removed = rem'\<rparr> origin,
                Emit ''update'' \<lparr>added = [], updated = [], removed = rem'\<rparr> origin])"
    using r(1) ne by (simp add: removeAwarenessStates_def)
  moreover have "meta aw' (clientID aw) = Some \<lparr>clock = jsPlusOne (clock m), lastUpdated = now\<rparr>"
    using r(3) by simp
  moreover have "clock m < 2 ^ 53 \<longrightarrow>
      meta aw' (clientID aw) = Some \<lparr>clock = clock m + 1, lastUpdated = now\<rparr>"
    using r(3) by (simp add: jsPlusOne_safe)
  ultimately show ?thesis using r(2,4) by blast
qed

theorem removeAwarenessStates_local_witness:
  "\<exists>aw' rem. removeAwarenessStates 70 [9, 7, 7] ''timeout''
     \<lparr>clientID = 7, states = [7 \<mapsto> JObj [], 9 \<mapsto> JObj []],
      meta = [7 \<mapsto> \<lparr>clock = 3, lastUpdated = 20\<rparr>, 9 \<mapsto> \<lparr>clock = 0, lastUpdated = 20\<rparr>]\<rparr>
       = Inr (aw',
              [Emit ''change'' \<lparr>added = [], updated = [], removed = rem\<rparr> ''timeout'',
               Emit ''update'' \<lparr>added = [], updated = [], removed = rem\<rparr> ''timeout'']) \<and>
     7 \<in> set rem \<and>
     states aw' 7 = None \<and> meta aw' 7 = Some \<lparr>clock = 4, lastUpdated = 70\<rparr>"
  using removeAwarenessStates_local [of
     "\<lparr>clientID = 7, states = [7 \<mapsto> JObj [], 9 \<mapsto> JObj []],
      meta = [7 \<mapsto> \<lparr>clock = 3, lastUpdated = 20\<rparr>, 9 \<mapsto> \<lparr>clock = 0, lastUpdated = 20\<rparr>]\<rparr>"
     "[9, 7, 7]" "\<lparr>clock = 3, lastUpdated = 20\<rparr>" 70 "''timeout''"]
  by (simp add: jsPlusOne_def)

section \<open>Merging one remote entry\<close>

lemma getLocalState_has: "getLocalState aw \<noteq> JNull \<Longrightarrow> states aw (clientID aw) \<noteq> None"
  by (auto simp: getLocalState_def stateOrNull_def split: option.splits)

lemma applyEntry_rejected:
  "\<not> accepted aw (cid, clk, st) \<Longrightarrow>
   applyEntry equalityDeep now (cid, clk, st) (aw, cl) = (aw, cl)"
  by (auto simp: applyEntry_def accepted_def localClock_def Let_def split: option.splits)

lemma applyEntry_accepted:
  "accepted aw (cid, clk, st) \<Longrightarrow>
   fst (applyEntry equalityDeep now (cid, clk, st) (aw, cl)) =
     aw\<lparr>states := (if st \<noteq> JNull then (states aw)(cid \<mapsto> st)
                      else if cid = clientID aw \<and> getLocalState aw \<noteq> JNull then states aw
                      else (states aw)(cid := None)),
         meta := (meta aw)(cid \<mapsto>
                   \<lparr>clock = (if st = JNull \<and> cid = clientID aw \<and> getLocalState aw \<noteq> JNull
                             then jsPlusOne clk else clk),
                    lastUpdated = now\<rparr>)\<rparr>"
  by (auto simp: applyEntry_def accepted_def localClock_def Let_def split: option.splits)

text \<open>An accepted entry with a clock below \<open>2^53\<close> changes the store.\<close>

lemma applyEntry_accepted_changes:
  assumes "accepted aw (cid, clk, st)" and safe: "clk < 2 ^ 53"
  shows "fst (applyEntry equalityDeep now (cid, clk, st) (aw, cl)) \<noteq> aw"
proof
  let ?aw' = "fst (applyEntry equalityDeep now (cid, clk, st) (aw, cl))"
  assume same: "?aw' = aw"
  let ?keep = "st = JNull \<and> cid = clientID aw \<and> getLocalState aw \<noteq> JNull"
  have m: "meta ?aw' cid =
      Some \<lparr>clock = (if ?keep then jsPlusOne clk else clk), lastUpdated = now\<rparr>"
    by (simp add: applyEntry_accepted [OF assms(1)])
  have s0: "states ?aw' cid =
      (if st \<noteq> JNull then Some st else if ?keep then states aw cid else None)"
    by (simp add: applyEntry_accepted [OF assms(1)])
  from s0 same have sc: "states aw cid =
      (if st \<noteq> JNull then Some st else if ?keep then states aw cid else None)"
    by simp
  from m same have "localClock aw cid = (if ?keep then jsPlusOne clk else clk)"
    by (simp add: localClock_def)
  then have lc: "localClock aw cid = (if ?keep then clk + 1 else clk)"
    by (simp add: jsPlusOne_safe [OF safe])
  from assms(1) consider "localClock aw cid < clk"
    | "localClock aw cid = clk" "st = JNull" "states aw cid \<noteq> None"
    by (auto simp: accepted_def)
  then show False
  proof cases
    case 1
    with lc show False by (simp split: if_splits)
  next
    case 2
    show False
    proof (cases ?keep)
      case True
      with lc 2 show False by simp
    next
      case False
      with sc 2 show False by (auto split: if_splits)
    qed
  qed
qed

text \<open>An accepted entry changes the store at some time: it sets \<open>lastUpdated\<close>.\<close>

lemma applyEntry_accepted_changes_sometime:
  assumes "accepted aw (cid, clk, st)"
  shows "\<exists>t. fst (applyEntry equalityDeep t (cid, clk, st) (aw, cl)) \<noteq> aw"
proof (rule ccontr)
  assume "\<not> ?thesis"
  then have all: "\<And>t. fst (applyEntry equalityDeep t (cid, clk, st) (aw, cl)) = aw" by simp
  have "\<And>t. lastUpdated (the (meta (fst (applyEntry equalityDeep t (cid, clk, st) (aw, cl))) cid)) = t"
    by (simp add: applyEntry_accepted [OF assms])
  then have "\<And>t. lastUpdated (the (meta aw cid)) = t" by (simp only: all)
  from this [of 0] this [of 1] show False by simp
qed

text \<open>
  Claim C2 says that an accepted entry \<open>(self, clock, null)\<close> never removes a local
  state that is not \<open>null\<close> and always raises the local clock. A new store of
  client 7 accepts the remote state \<open>false\<close> for client 7 at clock 3; the entry
  \<open>(7, 3, null)\<close> is then accepted, the state \<open>false\<close> is deleted and the clock
  stays 3, because \<open>getLocalState\<close> turns a falsy state into \<open>null\<close>. And with an
  object as local state at the clock \<open>2^53\<close>, the accepted entry
  \<open>(7, 2^53, null)\<close> keeps the state and stores the clock \<open>2^53\<close> once more.
\<close>

theorem applyEntry_self_protection_counterexample:
  "applyEntry (=) 20 (7, 3, JBool False) (Awareness_new (=) 20 7, noneClassified)
     = (\<lparr>clientID = 7, states = [7 \<mapsto> JBool False],
         meta = [7 \<mapsto> \<lparr>clock = 3, lastUpdated = 20\<rparr>]\<rparr>,
        \<lparr>c_added = [], c_updated = [7], c_filteredUpdated = [7], c_removed = []\<rparr>) \<and>
   accepted \<lparr>clientID = 7, states = [7 \<mapsto> JBool False],
         meta = [7 \<mapsto> \<lparr>clock = 3, lastUpdated = 20\<rparr>]\<rparr> (7, 3, JNull) \<and>
   applyEntry (=) 70 (7, 3, JNull)
       (\<lparr>clientID = 7, states = [7 \<mapsto> JBool False],
         meta = [7 \<mapsto> \<lparr>clock = 3, lastUpdated = 20\<rparr>]\<rparr>, noneClassified)
     = (\<lparr>clientID = 7, states = Map.empty,
         meta = [7 \<mapsto> \<lparr>clock = 3, lastUpdated = 70\<rparr>]\<rparr>,
        \<lparr>c_added = [], c_updated = [], c_filteredUpdated = [], c_removed = [7]\<rparr>) \<and>
   accepted \<lparr>clientID = 7, states = [7 \<mapsto> JObj []],
         meta = [7 \<mapsto> \<lparr>clock = 9007199254740992, lastUpdated = 20\<rparr>]\<rparr>
       (7, 9007199254740992, JNull) \<and>
   applyEntry (=) 70 (7, 9007199254740992, JNull)
       (\<lparr>clientID = 7, states = [7 \<mapsto> JObj []],
         meta = [7 \<mapsto> \<lparr>clock = 9007199254740992, lastUpdated = 20\<rparr>]\<rparr>, noneClassified)
     = (\<lparr>clientID = 7, states = [7 \<mapsto> JObj []],
         meta = [7 \<mapsto> \<lparr>clock = 9007199254740992, lastUpdated = 70\<rparr>]\<rparr>,
        \<lparr>c_added = [], c_updated = [], c_filteredUpdated = [], c_removed = [7]\<rparr>)"
proof -
  have n: "Awareness_new (=) 20 7 =
      \<lparr>clientID = 7, states = [7 \<mapsto> JObj []], meta = [7 \<mapsto> \<lparr>clock = 0, lastUpdated = 20\<rparr>]\<rparr>"
    by (simp add: Awareness_new_def setLocalState_def Let_def)
  have j: "jsPlusOne 9007199254740992 = 9007199254740992"
    by (simp add: jsPlusOne_def)
  show ?thesis
    by (simp add: n j applyEntry_def accepted_def localClock_def noneClassified_def
        getLocalState_def stateOrNull_def Let_def)
qed

text \<open>
  Claim C2, amended. An accepted entry \<open>(self, clk, null)\<close>, met while the local state
  is truthy (\<open>getLocalState\<close> is not \<open>null\<close>; every object is truthy), leaves
  \<open>states\<close> as it is and stores for the local client the current time and the
  JavaScript sum of \<open>clk\<close> and 1. For \<open>clk\<close> below \<open>2^53\<close> that is
  \<open>clk + 1\<close>, and the local clock is strictly larger than before.
\<close>

theorem applyEntry_self_protection:
  assumes "accepted aw (clientID aw, clk, JNull)"
    and "getLocalState aw \<noteq> JNull"
  shows "states (fst (applyEntry equalityDeep now (clientID aw, clk, JNull) (aw, cl)))
           = states aw \<and>
         meta (fst (applyEntry equalityDeep now (clientID aw, clk, JNull) (aw, cl)))
             (clientID aw)
           = Some \<lparr>clock = jsPlusOne clk, lastUpdated = now\<rparr> \<and>
         (clk < 2 ^ 53 \<longrightarrow>
            meta (fst (applyEntry equalityDeep now (clientID aw, clk, JNull) (aw, cl)))
                (clientID aw)
              = Some \<lparr>clock = clk + 1, lastUpdated = now\<rparr> \<and>
            localClock aw (clientID aw) <
              localClock (fst (applyEntry equalityDeep now (clientID aw, clk, JNull) (aw, cl)))
                (clientID aw))"
  using assms
  by (auto simp: applyEntry_def accepted_def localClock_def Let_def jsPlusOne_safe
      split: option.splits)

theorem applyEntry_self_protection_witness:
  "accepted \<lparr>clientID = 1, states = [1 \<mapsto> JObj []],
      meta = [1 \<mapsto> \<lparr>clock = 3, lastUpdated = 20\<rparr>]\<rparr> (1, 3, JNull) \<and>
   getLocalState \<lparr>clientID = 1, states = [1 \<mapsto> JObj []],
      meta = [1 \<mapsto> \<lparr>clock = 3, lastUpdated = 20\<rparr>]\<rparr> \<noteq> JNull \<and>
   states (fst (applyEntry (=) 70 (1, 3, JNull) (\<lparr>clientID = 1, states = [1 \<mapsto> JObj []],
      meta = [1 \<mapsto> \<lparr>clock = 3, lastUpdated = 20\<rparr>]\<rparr>, noneClassified)))
     = [1 \<mapsto> JObj []] \<and>
   meta (fst (applyEntry (=) 70 (1, 3, JNull) (\<lparr>clientID = 1, states = [1 \<mapsto> JObj []],
      meta = [1 \<mapsto> \<lparr>clock = 3, lastUpdated = 20\<rparr>]\<rparr>, noneClassified))) 1
     = Some \<lparr>clock = 4, lastUpdated = 70\<rparr>"
  using applyEntry_self_protection [of "\<lparr>clientID = 1, states = [1 \<mapsto> JObj []],
      meta = [1 \<mapsto> \<lparr>clock = 3, lastUpdated = 20\<rparr>]\<rparr>" 3 "(=)" 70 noneClassified]
  by (simp add: accepted_def localClock_def getLocalState_def stateOrNull_def jsPlusOne_def)

text \<open>
  Claim C4. An entry is accepted if and only if the known clock (0 without a meta entry) is
  below the remote clock, or equals it while the remote state is \<open>null\<close> and the client
  has a state. Exactly an accepted entry changes the store at some time of arrival, and,
  when its clock is below \<open>2^53\<close>, at every time. An accepted entry sets the client's
  meta entry (a clock not below the remote one, the current time) and its state. A rejected
  entry changes neither the store nor the four lists, and the loop goes on to the next
  entry without an error.
\<close>

theorem applyEntry_accept_iff:
  "(accepted aw (cid, clk, st) \<longleftrightarrow>
      (\<exists>t. fst (applyEntry equalityDeep t (cid, clk, st) (aw, cl)) \<noteq> aw)) \<and>
   (clk < 2 ^ 53 \<longrightarrow>
      (accepted aw (cid, clk, st) \<longleftrightarrow>
         fst (applyEntry equalityDeep now (cid, clk, st) (aw, cl)) \<noteq> aw)) \<and>
   (accepted aw (cid, clk, st) \<longrightarrow>
      (\<exists>c'. meta (fst (applyEntry equalityDeep now (cid, clk, st) (aw, cl))) cid
              = Some \<lparr>clock = c', lastUpdated = now\<rparr> \<and> clk \<le> c') \<and>
      states (fst (applyEntry equalityDeep now (cid, clk, st) (aw, cl))) cid =
        (if st \<noteq> JNull then Some st
         else if cid = clientID aw \<and> getLocalState aw \<noteq> JNull then states aw cid
         else None)) \<and>
   (\<not> accepted aw (cid, clk, st) \<longrightarrow>
      applyEntry equalityDeep now (cid, clk, st) (aw, cl) = (aw, cl) \<and>
      (readEntry parse dec = Inr ((cid, clk, st), dec') \<longrightarrow>
         applyLoop parse equalityDeep now (Suc n) dec (aw, cl) =
         applyLoop parse equalityDeep now n dec' (aw, cl)))"
proof (cases "accepted aw (cid, clk, st)")
  case True
  note ch = applyEntry_accepted_changes [OF True, of equalityDeep now cl]
  note st = applyEntry_accepted_changes_sometime [OF True, of equalityDeep cl]
  have "states (fst (applyEntry equalityDeep now (cid, clk, st) (aw, cl))) cid =
        (if st \<noteq> JNull then Some st
         else if cid = clientID aw \<and> getLocalState aw \<noteq> JNull then states aw cid
         else None)"
    by (simp add: applyEntry_accepted [OF True])
  moreover have "\<exists>c'. meta (fst (applyEntry equalityDeep now (cid, clk, st) (aw, cl))) cid
              = Some \<lparr>clock = c', lastUpdated = now\<rparr> \<and> clk \<le> c'"
    by (simp add: applyEntry_accepted [OF True] jsPlusOne_ge)
  ultimately show ?thesis using True ch st by blast
next
  case False
  have "\<And>t. applyEntry equalityDeep t (cid, clk, st) (aw, cl) = (aw, cl)"
    using False by (rule applyEntry_rejected)
  with False show ?thesis by simp
qed

theorem applyEntry_accept_iff_witness:
  "accepted \<lparr>clientID = 1, states = [1 \<mapsto> JObj []],
      meta = [1 \<mapsto> \<lparr>clock = 3, lastUpdated = 20\<rparr>]\<rparr> (2, 1, JObj []) \<and>
   fst (applyEntry (=) 70 (2, 1, JObj [])
         (\<lparr>clientID = 1, states = [1 \<mapsto> JObj []],
           meta = [1 \<mapsto> \<lparr>clock = 3, lastUpdated = 20\<rparr>]\<rparr>, noneClassified))
     \<noteq> \<lparr>clientID = 1, states = [1 \<mapsto> JObj []],
          meta = [1 \<mapsto> \<lparr>clock = 3, lastUpdated = 20\<rparr>]\<rparr> \<and>
   \<not> accepted \<lparr>clientID = 1, states = [1 \<mapsto> JObj []],
      meta = [1 \<mapsto> \<lparr>clock = 3, lastUpdated = 20\<rparr>]\<rparr> (1, 2, JObj []) \<and>
   readEntry parseFragment [1, 2, 2, 0x7B, 0x7D] = Inr ((1, 2, JObj []), []) \<and>
   applyLoop parseFragment (=) 70 (Suc 0) [1, 2, 2, 0x7B, 0x7D]
      (\<lparr>clientID = 1, states = [1 \<mapsto> JObj []],
        meta = [1 \<mapsto> \<lparr>clock = 3, lastUpdated = 20\<rparr>]\<rparr>, noneClassified)
     = Inr (\<lparr>clientID = 1, states = [1 \<mapsto> JObj []],
             meta = [1 \<mapsto> \<lparr>clock = 3, lastUpdated = 20\<rparr>]\<rparr>, noneClassified)"
proof -
  have a: "accepted \<lparr>clientID = 1, states = [1 \<mapsto> JObj []],
      meta = [1 \<mapsto> \<lparr>clock = 3, lastUpdated = 20\<rparr>]\<rparr> (2, 1, JObj [])"
    by (simp add: accepted_def localClock_def)
  have b: "\<not> accepted \<lparr>clientID = 1, states = [1 \<mapsto> JObj []],
      meta = [1 \<mapsto> \<lparr>clock = 3, lastUpdated = 20\<rparr>]\<rparr> (1, 2, JObj [])"
    by (simp add: accepted_def localClock_def)
  have c: "readEntry parseFragment [1, 2, 2, 0x7B, 0x7D] = Inr ((1, 2, JObj []), [])"
    by (simp add: readEntry_def readVarUint_def readVarString_def parseFragment_def)
  from a b c
    applyEntry_accept_iff [where aw = "\<lparr>clientID = 1, states = [1 \<mapsto> JObj []],
      meta = [1 \<mapsto> \<lparr>clock = 3, lastUpdated = 20\<rparr>]\<rparr>" and cid = 2 and clk = 1
      and st = "JObj []" and equalityDeep = "(=)" and now = 70 and cl = noneClassified
      and parse = parseFragment and dec = "[]" and dec' = "[]" and n = 0]
    applyEntry_accept_iff [where aw = "\<lparr>clientID = 1, states = [1 \<mapsto> JObj []],
      meta = [1 \<mapsto> \<lparr>clock = 3, lastUpdated = 20\<rparr>]\<rparr>" and cid = 1 and clk = 2
      and st = "JObj []" and equalityDeep = "(=)" and now = 70 and cl = noneClassified
      and parse = parseFragment and dec = "[1, 2, 2, 0x7B, 0x7D]" and dec' = "[]" and n = 0]
  show ?thesis by simp
qed

text \<open>
  Claim C9. When a client without a meta entry gets an accepted entry with a \<open>null\<close>
  state, in a store whose local client has its meta entry, a meta entry with the remote
  clock and the current time is created, the client has no state, and the four lists are
  what they were: the client is neither added, updated nor removed, and the events carry
  only these lists.
\<close>

theorem applyEntry_unknown_null:
  assumes "meta aw cid = None"
    and "accepted aw (cid, clk, JNull)"
    and "meta aw (clientID aw) \<noteq> None"
  shows "meta (fst (applyEntry equalityDeep now (cid, clk, JNull) (aw, cl))) cid
           = Some \<lparr>clock = clk, lastUpdated = now\<rparr> \<and>
         states (fst (applyEntry equalityDeep now (cid, clk, JNull) (aw, cl))) cid = None \<and>
         snd (applyEntry equalityDeep now (cid, clk, JNull) (aw, cl)) = cl \<and>
         emitClassified (snd (applyEntry equalityDeep now (cid, clk, JNull) (aw, cl))) origin
           = emitClassified cl origin"
  using assms
  by (auto simp: applyEntry_def accepted_def localClock_def Let_def split: option.splits)

theorem applyEntry_unknown_null_witness:
  "meta \<lparr>clientID = 1, states = [1 \<mapsto> JObj []],
      meta = [1 \<mapsto> \<lparr>clock = 3, lastUpdated = 20\<rparr>]\<rparr> 2 = None \<and>
   accepted \<lparr>clientID = 1, states = [1 \<mapsto> JObj []],
      meta = [1 \<mapsto> \<lparr>clock = 3, lastUpdated = 20\<rparr>]\<rparr> (2, 5, JNull) \<and>
   meta (fst (applyEntry (=) 70 (2, 5, JNull)
         (\<lparr>clientID = 1, states = [1 \<mapsto> JObj []],
           meta = [1 \<mapsto> \<lparr>clock = 3, lastUpdated = 20\<rparr>]\<rparr>, noneClassified))) 2
     = Some \<lparr>clock = 5, lastUpdated = 70\<rparr> \<and>
   snd (applyEntry (=) 70 (2, 5, JNull)
         (\<lparr>clientID = 1, states = [1 \<mapsto> JObj []],
           meta = [1 \<mapsto> \<lparr>clock = 3, lastUpdated = 20\<rparr>]\<rparr>, noneClassified)) = noneClassified \<and>
   emitClassified (snd (applyEntry (=) 70 (2, 5, JNull)
         (\<lparr>clientID = 1, states = [1 \<mapsto> JObj []],
           meta = [1 \<mapsto> \<lparr>clock = 3, lastUpdated = 20\<rparr>]\<rparr>, noneClassified))) ''remote'' = []"
proof -
  have a: "accepted \<lparr>clientID = 1, states = [1 \<mapsto> JObj []],
      meta = [1 \<mapsto> \<lparr>clock = 3, lastUpdated = 20\<rparr>]\<rparr> (2, 5, JNull)"
    by (simp add: accepted_def localClock_def)
  have e: "emitClassified noneClassified ''remote'' = []"
    by (simp add: emitClassified_def noneClassified_def)
  from a e
    applyEntry_unknown_null [of "\<lparr>clientID = 1, states = [1 \<mapsto> JObj []],
      meta = [1 \<mapsto> \<lparr>clock = 3, lastUpdated = 20\<rparr>]\<rparr>" 2 5 "(=)" 70 noneClassified
      "''remote''"]
  show ?thesis by simp
qed

section \<open>Idempotence\<close>

text \<open>
  After an entry has been merged it is settled: it is rejected, or it is a removal of the
  online local client at a clock that \<open>jsPlusOne\<close> does not move, which is accepted
  again and renews \<open>lastUpdated\<close> only. A settled entry stays settled whatever is
  merged next. So after a whole update every entry of it is settled, and a second pass
  changes neither a state nor a clock. While the local clock is below \<open>2^53\<close> a
  settled entry is a rejected one, and the second pass changes nothing at all.
\<close>

lemma localClock_clocks: "localClock aw cid = (case clocks aw cid of None \<Rightarrow> 0 | Some k \<Rightarrow> k)"
  by (simp add: localClock_def clocks_def split: option.splits)

lemma applyEntry_rejected_id:
  "\<not> accepted (fst acc) e \<Longrightarrow> applyEntry equalityDeep now e acc = acc"
  by (cases e; cases acc)
     (auto simp: applyEntry_def accepted_def localClock_def Let_def split: option.splits)

lemma applyEntry_renewing:
  assumes "renewing (fst acc) e"
  shows "clientID (fst (applyEntry equalityDeep now e acc)) = clientID (fst acc) \<and>
         states (fst (applyEntry equalityDeep now e acc)) = states (fst acc) \<and>
         clocks (fst (applyEntry equalityDeep now e acc)) = clocks (fst acc)"
  using assms jsPlusOne_stuck [of "fst (snd e)"]
  by (cases e; cases acc)
     (auto simp: applyEntry_def renewing_def localClock_def clocks_def Let_def fun_eq_iff
        getLocalState_def stateOrNull_def split: option.splits if_splits)

lemma applyEntry_settled_same:
  assumes "settled (fst acc) e"
  shows "clientID (fst (applyEntry equalityDeep now e acc)) = clientID (fst acc) \<and>
         states (fst (applyEntry equalityDeep now e acc)) = states (fst acc) \<and>
         clocks (fst (applyEntry equalityDeep now e acc)) = clocks (fst acc)"
proof (cases "accepted (fst acc) e")
  case True
  with assms have "renewing (fst acc) e" by (simp add: settled_def)
  then show ?thesis by (rule applyEntry_renewing)
next
  case False
  then show ?thesis by (simp add: applyEntry_rejected_id)
qed

text \<open>Whether an entry is settled depends on the local id, the client's state and clock.\<close>

lemma settled_cong:
  assumes "clientID a = clientID b" and "states a cid = states b cid"
    and "localClock a cid = localClock b cid"
  shows "settled a (cid, clk, st) = settled b (cid, clk, st)"
  using assms
  by (auto simp: settled_def renewing_def accepted_def getLocalState_def stateOrNull_def)

lemma applyEntry_keeps_settled:
  assumes "settled (fst acc) e"
  shows "settled (fst (applyEntry equalityDeep now e' acc)) e"
proof -
  obtain aw cl where acc: "acc = (aw, cl)" by (cases acc)
  obtain cid clk st where e: "e = (cid, clk, st)" by (cases e)
  obtain cid' clk' st' where e': "e' = (cid', clk', st')" by (cases e')
  let ?aw' = "fst (applyEntry equalityDeep now (cid', clk', st') (aw, cl))"
  from assms acc e have s: "settled aw (cid, clk, st)" by simp
  show ?thesis
  proof (cases "accepted aw (cid', clk', st')")
    case False
    then have "applyEntry equalityDeep now (cid', clk', st') (aw, cl) = (aw, cl)"
      using applyEntry_rejected_id [of "(aw, cl)" "(cid', clk', st')"] by simp
    with s acc e e' show ?thesis by simp
  next
    case True
    note aw' = applyEntry_accepted [OF True, of equalityDeep now cl]
    show ?thesis
    proof (cases "cid' = cid")
      case False
      have "clientID ?aw' = clientID aw" "states ?aw' cid = states aw cid"
        "localClock ?aw' cid = localClock aw cid"
        using False by (simp_all add: aw' localClock_def)
      from settled_cong [OF this] s acc e e' show ?thesis by simp
    next
      case same: True
      let ?keep = "st' = JNull \<and> cid = clientID aw \<and> getLocalState aw \<noteq> JNull"
      have cl': "localClock ?aw' cid = (if ?keep then jsPlusOne clk' else clk')"
        unfolding aw' using same by (simp add: localClock_def)
      have st'': "states ?aw' cid =
          (if st' \<noteq> JNull then Some st' else if ?keep then states aw cid else None)"
        unfolding aw' using same by simp
      have id': "clientID ?aw' = clientID aw" by (simp add: aw')
      have ge: "clk' \<le> jsPlusOne clk'" by (rule jsPlusOne_ge)
      from True same have acc': "localClock aw cid < clk' \<or>
          (localClock aw cid = clk' \<and> st' = JNull \<and> states aw cid \<noteq> None)"
        by (simp add: accepted_def)
      have gl: "getLocalState ?aw' = stateOrNull (states ?aw') (clientID aw)"
        by (simp add: getLocalState_def id')
      have gl0: "getLocalState aw = stateOrNull (states aw) (clientID aw)"
        by (simp add: getLocalState_def)
      have "settled ?aw' (cid, clk, st)"
        using s acc' ge cl' st'' id' gl gl0
        unfolding settled_def renewing_def accepted_def prod.case
        by (auto simp: stateOrNull_def split: if_splits option.splits)
      with acc e e' show ?thesis by simp
    qed
  qed
qed

lemma applyEntry_then_settled:
  "settled (fst (applyEntry equalityDeep now e acc)) e"
proof -
  obtain aw cl where acc: "acc = (aw, cl)" by (cases acc)
  obtain cid clk st where e: "e = (cid, clk, st)" by (cases e)
  let ?aw' = "fst (applyEntry equalityDeep now (cid, clk, st) (aw, cl))"
  show ?thesis
  proof (cases "accepted aw (cid, clk, st)")
    case False
    then have "applyEntry equalityDeep now (cid, clk, st) (aw, cl) = (aw, cl)"
      using applyEntry_rejected_id [of "(aw, cl)" "(cid, clk, st)"] by simp
    with False acc e show ?thesis by (simp add: settled_def)
  next
    case True
    note aw' = applyEntry_accepted [OF True, of equalityDeep now cl]
    let ?keep = "st = JNull \<and> cid = clientID aw \<and> getLocalState aw \<noteq> JNull"
    have cl': "localClock ?aw' cid = (if ?keep then jsPlusOne clk else clk)"
      by (simp add: aw' localClock_def)
    have st': "states ?aw' cid =
        (if st \<noteq> JNull then Some st else if ?keep then states aw cid else None)"
      by (simp add: aw')
    have id': "clientID ?aw' = clientID aw" by (simp add: aw')
    have ge: "clk \<le> jsPlusOne clk" by (rule jsPlusOne_ge)
    have gl: "getLocalState ?aw' = stateOrNull (states ?aw') (clientID aw)"
      by (simp add: getLocalState_def id')
    have gl0: "getLocalState aw = stateOrNull (states aw) (clientID aw)"
      by (simp add: getLocalState_def)
    have "settled ?aw' (cid, clk, st)"
      using ge cl' st' id' gl gl0
      unfolding settled_def renewing_def accepted_def prod.case
      by (auto simp: stateOrNull_def split: if_splits option.splits)
    with acc e show ?thesis by simp
  qed
qed

lemma foldl_keeps_settled:
  "settled (fst acc) e \<Longrightarrow>
   settled (fst (foldl (\<lambda>a e'. applyEntry equalityDeep now e' a) acc es)) e"
proof (induction es arbitrary: acc)
  case Nil
  then show ?case by simp
next
  case (Cons x xs)
  from Cons.prems have "settled (fst (applyEntry equalityDeep now x acc)) e"
    by (rule applyEntry_keeps_settled)
  then show ?case by (simp add: Cons.IH)
qed

lemma foldl_all_settled:
  "e \<in> set es \<Longrightarrow>
   settled (fst (foldl (\<lambda>a e'. applyEntry equalityDeep now e' a) acc es)) e"
proof (induction es arbitrary: acc)
  case Nil
  then show ?case by simp
next
  case (Cons x xs)
  show ?case
  proof (cases "e = x")
    case True
    have "settled (fst (applyEntry equalityDeep now x acc)) x"
      by (rule applyEntry_then_settled)
    then have "settled (fst (foldl (\<lambda>a e'. applyEntry equalityDeep now e' a)
                 (applyEntry equalityDeep now x acc) xs)) x"
      by (rule foldl_keeps_settled)
    with True show ?thesis by simp
  next
    case False
    with Cons.prems have "e \<in> set xs" by simp
    then show ?thesis by (simp add: Cons.IH)
  qed
qed

lemma foldl_settled_same:
  "\<forall>e \<in> set es. settled (fst acc) e \<Longrightarrow>
   clientID (fst (foldl (\<lambda>a e'. applyEntry equalityDeep now e' a) acc es)) = clientID (fst acc) \<and>
   states (fst (foldl (\<lambda>a e'. applyEntry equalityDeep now e' a) acc es)) = states (fst acc) \<and>
   clocks (fst (foldl (\<lambda>a e'. applyEntry equalityDeep now e' a) acc es)) = clocks (fst acc)"
proof (induction es arbitrary: acc)
  case Nil
  then show ?case by simp
next
  case (Cons x xs)
  let ?acc1 = "applyEntry equalityDeep now x acc"
  from Cons.prems have x: "settled (fst acc) x" by simp
  note same = applyEntry_settled_same [OF x, of equalityDeep now]
  have "\<forall>e \<in> set xs. settled (fst ?acc1) e"
  proof
    fix e assume "e \<in> set xs"
    with Cons.prems have "settled (fst acc) e" by simp
    then show "settled (fst ?acc1) e" by (rule applyEntry_keeps_settled)
  qed
  from Cons.IH [OF this] same show ?case by simp
qed

lemma foldl_rejected_id:
  "\<forall>e \<in> set es. \<not> accepted (fst acc) e \<Longrightarrow>
   foldl (\<lambda>a e'. applyEntry equalityDeep now e' a) acc es = acc"
proof (induction es)
  case Nil
  then show ?case by simp
next
  case (Cons x xs)
  then show ?case by (simp add: applyEntry_rejected_id)
qed

text \<open>Below \<open>2^53\<close> a settled entry is a rejected one.\<close>

lemma settled_safe_rejected:
  "settled aw e \<Longrightarrow> localClock aw (clientID aw) < 2 ^ 53 \<Longrightarrow> \<not> accepted aw e"
  using jsPlusOne_stuck [of "fst (snd e)"]
  by (cases e) (auto simp: settled_def renewing_def)

lemma applyLoop_decodeLoop:
  "decodeLoop parse n dec = Inr es \<Longrightarrow>
   applyLoop parse equalityDeep now n dec acc =
     Inr (foldl (\<lambda>a e'. applyEntry equalityDeep now e' a) acc es)"
proof (induction n arbitrary: dec acc es)
  case 0
  then show ?case by auto
next
  case (Suc n)
  from Suc.prems obtain entry dec' es' where
    r: "readEntry parse dec = Inr (entry, dec')" and d: "decodeLoop parse n dec' = Inr es'"
    and es: "es = entry # es'"
    by (auto split: sum.splits)
  from Suc.IH [OF d] r es show ?case by simp
qed

lemma applyLoop_Inr_decodeLoop:
  "applyLoop parse equalityDeep now n dec acc = Inr r \<Longrightarrow>
   \<exists>es. decodeLoop parse n dec = Inr es"
proof (induction n arbitrary: dec acc)
  case 0
  then show ?case by simp
next
  case (Suc n)
  from Suc.prems obtain entry dec' where
    r: "readEntry parse dec = Inr (entry, dec')"
    and a: "applyLoop parse equalityDeep now n dec' (applyEntry equalityDeep now entry acc) = Inr r"
    by (auto split: sum.splits)
  from Suc.IH [OF a] r show ?case by auto
qed

lemma LWWRegister_merge_idem:
  "LWWRegister_merge s (LWWRegister_merge s r) = LWWRegister_merge s r"
  by (simp add: LWWRegister_merge_def Let_def)

text \<open>
  Claim C7. Merging a register state twice gives the same register as merging it once.
  When \<open>applyAwarenessUpdate\<close> has returned normally on an update (the buffer is
  well formed), applying the same update again to the resulting store, at any later time
  and with any origin, returns normally with the same \<open>states\<close> and the same clocks in
  \<open>meta\<close>. If the local clock of the resulting store is below \<open>2^53\<close>, the second
  application returns the very same store and emits no event.
\<close>

theorem merge_twice_is_merge_once:
  "LWWRegister_merge s (LWWRegister_merge s r) = LWWRegister_merge s r \<and>
   (applyAwarenessUpdate parse equalityDeep now update origin aw = Inr (aw1, evs) \<longrightarrow>
    (\<exists>aw2 evs2.
       applyAwarenessUpdate parse equalityDeep now' update origin' aw1 = Inr (aw2, evs2) \<and>
       clientID aw2 = clientID aw1 \<and> states aw2 = states aw1 \<and> clocks aw2 = clocks aw1) \<and>
    (localClock aw1 (clientID aw1) < 2 ^ 53 \<longrightarrow>
       applyAwarenessUpdate parse equalityDeep now' update origin' aw1 = Inr (aw1, [])))"
proof (intro conjI impI)
  show "LWWRegister_merge s (LWWRegister_merge s r) = LWWRegister_merge s r"
    by (rule LWWRegister_merge_idem)
next
  assume first: "applyAwarenessUpdate parse equalityDeep now update origin aw = Inr (aw1, evs)"
  then obtain len dec cl where
    rd: "readVarUint update = Inr (len, dec)"
    and lp: "applyLoop parse equalityDeep now len dec (aw, noneClassified) = Inr (aw1, cl)"
    by (auto simp: applyAwarenessUpdate_def split: sum.splits)
  from applyLoop_Inr_decodeLoop [OF lp] obtain es where de: "decodeLoop parse len dec = Inr es" ..
  from applyLoop_decodeLoop [OF de, of equalityDeep now "(aw, noneClassified)"] lp
  have f: "foldl (\<lambda>a e'. applyEntry equalityDeep now e' a) (aw, noneClassified) es = (aw1, cl)"
    by simp
  have all: "\<forall>e \<in> set es. settled (fst (aw1, noneClassified)) e"
  proof
    fix e assume "e \<in> set es"
    from foldl_all_settled [OF this, of equalityDeep now "(aw, noneClassified)"] f
    show "settled (fst (aw1, noneClassified)) e" by simp
  qed
  let ?r = "foldl (\<lambda>a e'. applyEntry equalityDeep now' e' a) (aw1, noneClassified) es"
  have second: "applyAwarenessUpdate parse equalityDeep now' update origin' aw1 =
      Inr (fst ?r, emitClassified (snd ?r) origin')"
    using rd applyLoop_decodeLoop [OF de, of equalityDeep now' "(aw1, noneClassified)"]
    by (simp add: applyAwarenessUpdate_def split: prod.splits)
  from foldl_settled_same [OF all, of equalityDeep now'] second
  show "\<exists>aw2 evs2.
       applyAwarenessUpdate parse equalityDeep now' update origin' aw1 = Inr (aw2, evs2) \<and>
       clientID aw2 = clientID aw1 \<and> states aw2 = states aw1 \<and> clocks aw2 = clocks aw1"
    by simp
  assume safe: "localClock aw1 (clientID aw1) < 2 ^ 53"
  have "\<forall>e \<in> set es. \<not> accepted (fst (aw1, noneClassified)) e"
  proof
    fix e assume "e \<in> set es"
    with all have "settled aw1 e" by simp
    then show "\<not> accepted (fst (aw1, noneClassified)) e"
      using safe by (simp add: settled_safe_rejected)
  qed
  from foldl_rejected_id [OF this, of equalityDeep now']
  have "?r = (aw1, noneClassified)" .
  with second show "applyAwarenessUpdate parse equalityDeep now' update origin' aw1 = Inr (aw1, [])"
    by (simp add: emitClassified_def noneClassified_def)
qed

theorem merge_twice_is_merge_once_witness:
  "applyAwarenessUpdate parseFragment (=) 70 [2, 7, 3, 4, 0x6E, 0x75, 0x6C, 0x6C, 9, 5, 2, 0x7B, 0x7D] ''remote''
       \<lparr>clientID = 7, states = [7 \<mapsto> JObj []], meta = [7 \<mapsto> \<lparr>clock = 3, lastUpdated = 20\<rparr>]\<rparr>
     = Inr (\<lparr>clientID = 7, states = [7 \<mapsto> JObj [], 9 \<mapsto> JObj []],
        meta = [7 \<mapsto> \<lparr>clock = 4, lastUpdated = 70\<rparr>, 9 \<mapsto> \<lparr>clock = 5, lastUpdated = 70\<rparr>]\<rparr>,
            [Emit ''change'' \<lparr>added = [9], updated = [], removed = [7]\<rparr> ''remote'',
             Emit ''update'' \<lparr>added = [9], updated = [], removed = [7]\<rparr> ''remote'']) \<and>
   applyAwarenessUpdate parseFragment (=) 90 [2, 7, 3, 4, 0x6E, 0x75, 0x6C, 0x6C, 9, 5, 2, 0x7B, 0x7D] ''again''
       \<lparr>clientID = 7, states = [7 \<mapsto> JObj [], 9 \<mapsto> JObj []],
        meta = [7 \<mapsto> \<lparr>clock = 4, lastUpdated = 70\<rparr>, 9 \<mapsto> \<lparr>clock = 5, lastUpdated = 70\<rparr>]\<rparr>
     = Inr (\<lparr>clientID = 7, states = [7 \<mapsto> JObj [], 9 \<mapsto> JObj []],
        meta = [7 \<mapsto> \<lparr>clock = 4, lastUpdated = 70\<rparr>, 9 \<mapsto> \<lparr>clock = 5, lastUpdated = 70\<rparr>]\<rparr>, [])"
proof -
  have l: "readVarUint [2, 7, 3, 4, 0x6E, 0x75, 0x6C, 0x6C, 9, 5, 2, 0x7B, 0x7D] =
      Inr (Suc (Suc 0), [7, 3, 4, 0x6E, 0x75, 0x6C, 0x6C, 9, 5, 2, 0x7B, 0x7D])"
    by (simp add: readVarUint_def)
  have r1: "readEntry parseFragment [7, 3, 4, 0x6E, 0x75, 0x6C, 0x6C, 9, 5, 2, 0x7B, 0x7D] =
      Inr ((7, 3, JNull), [9, 5, 2, 0x7B, 0x7D])"
    by (simp add: readEntry_def readVarUint_def readVarString_def parseFragment_def)
  have r2: "readEntry parseFragment [9, 5, 2, 0x7B, 0x7D] = Inr ((9, 5, JObj []), [])"
    by (simp add: readEntry_def readVarUint_def readVarString_def parseFragment_def)
  have a1: "applyEntry (=) 70 (7, 3, JNull)
       (\<lparr>clientID = 7, states = [7 \<mapsto> JObj []], meta = [7 \<mapsto> \<lparr>clock = 3, lastUpdated = 20\<rparr>]\<rparr>, noneClassified)
     = (\<lparr>clientID = 7, states = [7 \<mapsto> JObj []], meta = [7 \<mapsto> \<lparr>clock = 4, lastUpdated = 70\<rparr>]\<rparr>,
        \<lparr>c_added = [], c_updated = [], c_filteredUpdated = [], c_removed = [7]\<rparr>)"
    by (simp add: applyEntry_def noneClassified_def getLocalState_def stateOrNull_def Let_def
        jsPlusOne_def)
  have a2: "applyEntry (=) 70 (9, 5, JObj [])
       (\<lparr>clientID = 7, states = [7 \<mapsto> JObj []], meta = [7 \<mapsto> \<lparr>clock = 4, lastUpdated = 70\<rparr>]\<rparr>,
        \<lparr>c_added = [], c_updated = [], c_filteredUpdated = [], c_removed = [7]\<rparr>)
     = (\<lparr>clientID = 7, states = [7 \<mapsto> JObj [], 9 \<mapsto> JObj []],
        meta = [7 \<mapsto> \<lparr>clock = 4, lastUpdated = 70\<rparr>, 9 \<mapsto> \<lparr>clock = 5, lastUpdated = 70\<rparr>]\<rparr>,
        \<lparr>c_added = [9], c_updated = [], c_filteredUpdated = [], c_removed = [7]\<rparr>)"
    by (simp add: applyEntry_def Let_def)
  have first: "applyAwarenessUpdate parseFragment (=) 70 [2, 7, 3, 4, 0x6E, 0x75, 0x6C, 0x6C, 9, 5, 2, 0x7B, 0x7D] ''remote''
       \<lparr>clientID = 7, states = [7 \<mapsto> JObj []], meta = [7 \<mapsto> \<lparr>clock = 3, lastUpdated = 20\<rparr>]\<rparr>
     = Inr (\<lparr>clientID = 7, states = [7 \<mapsto> JObj [], 9 \<mapsto> JObj []],
        meta = [7 \<mapsto> \<lparr>clock = 4, lastUpdated = 70\<rparr>, 9 \<mapsto> \<lparr>clock = 5, lastUpdated = 70\<rparr>]\<rparr>,
            [Emit ''change'' \<lparr>added = [9], updated = [], removed = [7]\<rparr> ''remote'',
             Emit ''update'' \<lparr>added = [9], updated = [], removed = [7]\<rparr> ''remote''])"
    by (simp add: applyAwarenessUpdate_def l r1 r2 a1 a2 emitClassified_def)
  from first
    merge_twice_is_merge_once [where parse = parseFragment and equalityDeep = "(=)"
      and now = 70 and now' = 90 and update = "[2, 7, 3, 4, 0x6E, 0x75, 0x6C, 0x6C, 9, 5, 2, 0x7B, 0x7D]" and origin = "''remote''"
      and origin' = "''again''"
      and aw = "\<lparr>clientID = 7, states = [7 \<mapsto> JObj []], meta = [7 \<mapsto> \<lparr>clock = 3, lastUpdated = 20\<rparr>]\<rparr>"
      and s = "\<lparr>peer = ''bob'', timestamp = 7, val = ''b''\<rparr>"
      and r = "\<lparr>reg_id = ''alice'', state = \<lparr>peer = ''alice'', timestamp = 5, val = ''a''\<rparr>\<rparr>"]
  show ?thesis by (simp add: localClock_def)
qed

section \<open>The wire format\<close>

text \<open>The low seven bits of a byte and its continuation bit.\<close>

lemma low7_take_bit: "(0x7F::byte) AND x = take_bit 7 x" "x AND (0x7F::byte) = take_bit 7 x"
proof -
  have m: "(0x7F::byte) = mask 7" by (simp add: mask_eq_exp_minus_1)
  show "(0x7F::byte) AND x = take_bit 7 x" "x AND (0x7F::byte) = take_bit 7 x"
    unfolding m by (simp_all only: take_bit_eq_mask and.commute)
qed

lemma unat_low7: "unat (take_bit 7 (of_nat n :: byte)) = n mod 128"
proof -
  have "unat (take_bit 7 (of_nat n :: byte)) = take_bit 7 (unat (of_nat n :: byte))"
    by (simp only: unsigned_take_bit_eq)
  also have "\<dots> = take_bit 7 (take_bit 8 n)"
    by (simp only: unsigned_of_nat) simp
  also have "\<dots> = take_bit 7 n"
    by simp
  also have "\<dots> = n mod 128"
    by (simp add: take_bit_eq_mod)
  finally show ?thesis .
qed

lemma low7_idem: "take_bit 7 (take_bit 7 x) = take_bit 7 (x::byte)"
  by simp

lemma high_or_low7: "take_bit 7 ((0x80::byte) OR take_bit 7 x) = take_bit 7 x"
proof -
  have "take_bit 7 (0x80::byte) = 0" 
    by (simp add: take_bit_eq_mod)
  then show ?thesis by (simp add: take_bit_or)
qed

lemma high_not_less: "\<not> ((0x80::byte) OR y) < 0x80"
proof -
  have "(0x80::byte) \<le> 0x80 OR y" by (rule le_word_or2) 
  then show ?thesis by simp
qed

lemma low7_less: "take_bit 7 (x::byte) < 0x80"
proof -
  have "unat (take_bit 7 x) = take_bit 7 (unat x)" by (simp only: unsigned_take_bit_eq)
  also have "\<dots> < 128" by (simp add: take_bit_eq_mod)
  finally show ?thesis by (simp add: word_less_nat_alt)
qed

lemma readVarUintLoop_writeVarUint:
  "readVarUintLoop a m (writeVarUint n @ rest) = Inr (a + n * m, rest)"
proof (induction n arbitrary: a m rule: writeVarUint.induct)
  case (1 num)
  show ?case
  proof (cases "num > 127")
    case True
    have "readVarUintLoop a m (writeVarUint num @ rest) =
          readVarUintLoop (a + (num mod 128) * m) (m * 128) (writeVarUint (num div 128) @ rest)"
      using True
      by (subst writeVarUint.simps)
         (simp add: low7_take_bit high_or_low7 high_not_less unat_low7)
    also have "\<dots> = Inr (a + (num mod 128) * m + (num div 128) * (m * 128), rest)"
      using True by (simp only: "1.IH")
    also have "a + (num mod 128) * m + (num div 128) * (m * 128) = a + num * m"
    proof -
      have e: "num mod 128 + 128 * (num div 128) = num" by simp
      have "num * m = (num mod 128 + 128 * (num div 128)) * m" by (simp only: e)
      also have "\<dots> = (num mod 128) * m + (num div 128) * (m * 128)"
        by (simp only: distrib_right distrib_left ac_simps)
      finally show ?thesis by simp
    qed
    finally show ?thesis .
  next
    case False
    then have "num mod 128 = num" by simp
    with False show ?thesis
      by (subst writeVarUint.simps)
         (simp add: low7_take_bit low7_less unat_low7)
  qed
qed

lemma readVarUint_writeVarUint: "readVarUint (writeVarUint n @ rest) = Inr (n, rest)"
  by (simp add: readVarUint_def readVarUintLoop_writeVarUint)

lemma readVarString_writeVarString:
  "readVarString (writeVarString txt @ rest) = Inr (txt, rest)"
  by (simp add: readVarString_def writeVarString_def readVarUint_writeVarUint)

lemma readEntry_entryBytes:
  "parse (stringify (stateOrNull sts c)) = Some (stateOrNull sts c) \<Longrightarrow>
   readEntry parse (entryBytes stringify aw sts c @ rest) =
     Inr ((c, localClock aw c, stateOrNull sts c), rest)"
  by (simp add: readEntry_def entryBytes_def readVarUint_writeVarUint
      readVarString_writeVarString)

lemma encodeLoop_entryBytes:
  "\<forall>c \<in> set cs. meta aw c \<noteq> None \<Longrightarrow>
   encodeLoop stringify aw sts cs encoder =
     Inr (encoder @ concat (map (entryBytes stringify aw sts) cs))"
proof (induction cs arbitrary: encoder)
  case Nil
  then show ?case by simp
next
  case (Cons c cs)
  from Cons.prems obtain m where m: "meta aw c = Some m" by auto
  from Cons.prems have rest: "\<forall>c \<in> set cs. meta aw c \<noteq> None" by simp
  from m have "localClock aw c = clock m" by (simp add: localClock_def)
  with m Cons.IH [OF rest] show ?case
    by (simp add: entryBytes_def Let_def)
qed

lemma decodeLoop_entryBytes:
  "\<forall>c \<in> set cs. parse (stringify (stateOrNull sts c)) = Some (stateOrNull sts c) \<Longrightarrow>
   decodeLoop parse (length cs) (concat (map (entryBytes stringify aw sts) cs) @ rest) =
     Inr (map (\<lambda>c. (c, localClock aw c, stateOrNull sts c)) cs)"
proof (induction cs)
  case Nil
  then show ?case by simp
next
  case (Cons c cs)
  then show ?case by (simp add: readEntry_entryBytes)
qed

text \<open>
  Claim C8 says that the decoded state is the client's \<open>states\<close> entry. A remote
  update with the text \<open>false\<close> for client 9 is accepted by a new store and leaves
  \<open>false\<close> as the state of client 9. The texts \<open>false\<close> and \<open>null\<close> survive
  the JSON round trip, yet encoding client 9 writes the text \<open>null\<close>, and decoding
  yields \<open>(9, 3, null)\<close>, not \<open>(9, 3, false)\<close>.
\<close>

theorem encode_decode_falsy_counterexample:
  "applyAwarenessUpdate parseFragment (=) 20
       [1, 9, 3, 5, 0x66, 0x61, 0x6C, 0x73, 0x65] ''remote'' (Awareness_new (=) 20 7)
     = Inr (\<lparr>clientID = 7, states = [7 \<mapsto> JObj [], 9 \<mapsto> JBool False],
      meta = [7 \<mapsto> \<lparr>clock = 0, lastUpdated = 20\<rparr>, 9 \<mapsto> \<lparr>clock = 3, lastUpdated = 20\<rparr>]\<rparr>,
            [Emit ''change'' \<lparr>added = [9], updated = [], removed = []\<rparr> ''remote'',
             Emit ''update'' \<lparr>added = [9], updated = [], removed = []\<rparr> ''remote'']) \<and>
   parseFragment (stringifyFragment (JBool False)) = Some (JBool False) \<and>
   encodeAwarenessUpdate stringifyFragment \<lparr>clientID = 7, states = [7 \<mapsto> JObj [], 9 \<mapsto> JBool False],
      meta = [7 \<mapsto> \<lparr>clock = 0, lastUpdated = 20\<rparr>, 9 \<mapsto> \<lparr>clock = 3, lastUpdated = 20\<rparr>]\<rparr> [9]
     = Inr [1, 9, 3, 4, 0x6E, 0x75, 0x6C, 0x6C] \<and>
   decodeAwarenessUpdate parseFragment [1, 9, 3, 4, 0x6E, 0x75, 0x6C, 0x6C] = Inr [(9, 3, JNull)]"
proof -
  have n: "Awareness_new (=) 20 7 = \<lparr>clientID = 7, states = [7 \<mapsto> JObj []], meta = [7 \<mapsto> \<lparr>clock = 0, lastUpdated = 20\<rparr>]\<rparr>"
    by (simp add: Awareness_new_def setLocalState_def Let_def)
  have l: "readVarUint [1, 9, 3, 5, 0x66, 0x61, 0x6C, 0x73, 0x65] =
      Inr (Suc 0, [9, 3, 5, 0x66, 0x61, 0x6C, 0x73, 0x65])"
    by (simp add: readVarUint_def)
  have r: "readEntry parseFragment [9, 3, 5, 0x66, 0x61, 0x6C, 0x73, 0x65] =
      Inr ((9, 3, JBool False), [])"
    by (simp add: readEntry_def readVarUint_def readVarString_def parseFragment_def)
  have a: "applyEntry (=) 20 (9, 3, JBool False) (\<lparr>clientID = 7, states = [7 \<mapsto> JObj []], meta = [7 \<mapsto> \<lparr>clock = 0, lastUpdated = 20\<rparr>]\<rparr>, noneClassified)
     = (\<lparr>clientID = 7, states = [7 \<mapsto> JObj [], 9 \<mapsto> JBool False],
      meta = [7 \<mapsto> \<lparr>clock = 0, lastUpdated = 20\<rparr>, 9 \<mapsto> \<lparr>clock = 3, lastUpdated = 20\<rparr>]\<rparr>, \<lparr>c_added = [9], c_updated = [], c_filteredUpdated = [], c_removed = []\<rparr>)"
    by (simp add: applyEntry_def noneClassified_def Let_def)
  have first: "applyAwarenessUpdate parseFragment (=) 20
       [1, 9, 3, 5, 0x66, 0x61, 0x6C, 0x73, 0x65] ''remote'' (Awareness_new (=) 20 7)
     = Inr (\<lparr>clientID = 7, states = [7 \<mapsto> JObj [], 9 \<mapsto> JBool False],
      meta = [7 \<mapsto> \<lparr>clock = 0, lastUpdated = 20\<rparr>, 9 \<mapsto> \<lparr>clock = 3, lastUpdated = 20\<rparr>]\<rparr>,
            [Emit ''change'' \<lparr>added = [9], updated = [], removed = []\<rparr> ''remote'',
             Emit ''update'' \<lparr>added = [9], updated = [], removed = []\<rparr> ''remote''])"
    by (simp add: applyAwarenessUpdate_def n l r a emitClassified_def)
  have p: "parseFragment (stringifyFragment (JBool False)) = Some (JBool False)"
    by (simp add: parseFragment_def)
  have e: "encodeAwarenessUpdate stringifyFragment \<lparr>clientID = 7, states = [7 \<mapsto> JObj [], 9 \<mapsto> JBool False],
      meta = [7 \<mapsto> \<lparr>clock = 0, lastUpdated = 20\<rparr>, 9 \<mapsto> \<lparr>clock = 3, lastUpdated = 20\<rparr>]\<rparr> [9]
     = Inr [1, 9, 3, 4, 0x6E, 0x75, 0x6C, 0x6C]"
    by (simp add: encodeAwarenessUpdate_def encodeAwarenessUpdateWith_def stateOrNull_def
        writeVarString_def writeVarUint.simps)
  have d: "decodeAwarenessUpdate parseFragment [1, 9, 3, 4, 0x6E, 0x75, 0x6C, 0x6C] =
      Inr [(9, 3, JNull)]"
    by (simp add: decodeAwarenessUpdate_def readEntry_def readVarUint_def readVarString_def
        parseFragment_def)
  from first p e d show ?thesis by (intro conjI)
qed

text \<open>
  Claim C8, amended. If every listed client has a meta entry, and the JSON text round trip
  gives back each encoded state, then \<open>encodeAwarenessUpdate\<close> returns a buffer
  whose decoding yields one tuple per listed client, in list order: the client's id, its
  meta clock, and \<open>stateOrNull\<close> of its entry, which is the \<open>states\<close> entry when
  that is truthy (every object and array is) and \<open>null\<close> when the client has no entry
  or a falsy one.
\<close>

theorem encode_decode_roundtrip:
  assumes "\<forall>c \<in> set clients. meta aw c \<noteq> None"
    and "\<forall>c \<in> set clients.
           parse (stringify (stateOrNull (states aw) c)) = Some (stateOrNull (states aw) c)"
  shows "\<exists>update. encodeAwarenessUpdate stringify aw clients = Inr update \<and>
           decodeAwarenessUpdate parse update =
             Inr (map (\<lambda>c. (c, localClock aw c, stateOrNull (states aw) c)) clients)"
proof -
  let ?body = "concat (map (entryBytes stringify aw (states aw)) clients)"
  have enc: "encodeAwarenessUpdate stringify aw clients =
               Inr (writeVarUint (length clients) @ ?body)"
    by (simp add: encodeAwarenessUpdate_def encodeAwarenessUpdateWith_def
        encodeLoop_entryBytes [OF assms(1)])
  have "decodeAwarenessUpdate parse (writeVarUint (length clients) @ ?body) =
          decodeLoop parse (length clients) (?body @ [])"
    by (simp add: decodeAwarenessUpdate_def readVarUint_writeVarUint)
  also have "\<dots> = Inr (map (\<lambda>c. (c, localClock aw c, stateOrNull (states aw) c)) clients)"
    using assms(2) by (rule decodeLoop_entryBytes)
  finally show ?thesis using enc by simp
qed

theorem encode_decode_roundtrip_witness:
  "\<exists>update. encodeAwarenessUpdate stringifyFragment
       \<lparr>clientID = 7,
        states = [7 \<mapsto> JObj [], 9 \<mapsto> JObj [(''x'', JObj [])], 11 \<mapsto> JBool False],
        meta = [7 \<mapsto> \<lparr>clock = 0, lastUpdated = 20\<rparr>, 9 \<mapsto> \<lparr>clock = 300, lastUpdated = 20\<rparr>,
                11 \<mapsto> \<lparr>clock = 2, lastUpdated = 20\<rparr>, 12 \<mapsto> \<lparr>clock = 5, lastUpdated = 20\<rparr>]\<rparr>
       [9, 12, 7, 11] = Inr update \<and>
     decodeAwarenessUpdate parseFragment update =
       Inr [(9, 300, JObj [(''x'', JObj [])]), (12, 5, JNull), (7, 0, JObj []), (11, 2, JNull)]"
  using encode_decode_roundtrip [of "[9, 12, 7, 11]"
       "\<lparr>clientID = 7,
        states = [7 \<mapsto> JObj [], 9 \<mapsto> JObj [(''x'', JObj [])], 11 \<mapsto> JBool False],
        meta = [7 \<mapsto> \<lparr>clock = 0, lastUpdated = 20\<rparr>, 9 \<mapsto> \<lparr>clock = 300, lastUpdated = 20\<rparr>,
                11 \<mapsto> \<lparr>clock = 2, lastUpdated = 20\<rparr>, 12 \<mapsto> \<lparr>clock = 5, lastUpdated = 20\<rparr>]\<rparr>"
       parseFragment stringifyFragment]
  by (simp add: stateOrNull_def localClock_def parseFragment_def)

end
